theory Spec2Isabelle
  imports Complex_Main "HOL-Library.Sublist"
begin

section \<open>Python values, strings and objects\<close>

text \<open>
  The program is \<^verbatim>\<open>interpreter/terminal_interface/start_terminal_interface.py\<close>.
  Python values that the resolver moves around are modelled by \<open>pyval\<close>. Floats are only
  stored and passed on, never computed with, so a real number stands for them. Strings are
  byte strings (UTF-8), which is enough for the prefix tests, the slice and the
  replacement the code performs, all of which use ASCII patterns.
\<close>

datatype pyval = PNone | PBool bool | PInt int | PFloat real | PStr string

text \<open>Python truthiness, as used by \<^verbatim>\<open>if x:\<close>, \<^verbatim>\<open>not x\<close> and \<^verbatim>\<open>x or y\<close>.\<close>

fun truthy :: "pyval \<Rightarrow> bool" where
  "truthy PNone = False"
| "truthy (PBool b) = b"
| "truthy (PInt i) = (i \<noteq> 0)"
| "truthy (PFloat r) = (r \<noteq> 0)"
| "truthy (PStr s) = (s \<noteq> [])"

text \<open>\<^verbatim>\<open>s.startswith(p)\<close>\<close>

fun startswith :: "string \<Rightarrow> string \<Rightarrow> bool" where
  "startswith s [] = True"
| "startswith [] (p # ps) = False"
| "startswith (c # cs) (p # ps) = (c = p \<and> startswith cs ps)"

text \<open>\<^verbatim>\<open>p in s\<close> for strings: \<open>p\<close> occurs in \<open>s\<close> as a contiguous substring.\<close>

fun py_in :: "string \<Rightarrow> string \<Rightarrow> bool" where
  "py_in p [] = (p = [])"
| "py_in p (c # cs) = (startswith (c # cs) p \<or> py_in p cs)"

text \<open>\<^verbatim>\<open>s.lower()\<close> on ASCII letters; other bytes are left alone.\<close>

definition lower_char :: "char \<Rightarrow> char" where
  "lower_char c =
     (case map_of (zip ''ABCDEFGHIJKLMNOPQRSTUVWXYZ'' ''abcdefghijklmnopqrstuvwxyz'') c of
        Some d \<Rightarrow> d
      | None \<Rightarrow> c)"

definition lower :: "string \<Rightarrow> string" where
  "lower s = map lower_char s"

text \<open>\<^verbatim>\<open>sep.join(xs)\<close>\<close>

fun join :: "string \<Rightarrow> string list \<Rightarrow> string" where
  "join sep [] = []"
| "join sep [x] = x"
| "join sep (x # y # ys) = x @ sep @ join sep (y # ys)"

text \<open>\<^verbatim>\<open>s.strip()\<close>: leading and trailing ASCII whitespace is dropped.\<close>

definition isspace :: "char \<Rightarrow> bool" where
  "isspace c = (c \<in> set [CHR '' '', CHR 0x09, CHR 0x0A, CHR 0x0B, CHR 0x0C, CHR 0x0D,
                           CHR 0x1C, CHR 0x1D, CHR 0x1E, CHR 0x1F])"

definition strip :: "string \<Rightarrow> string" where
  "strip s = rev (dropWhile isspace (rev (dropWhile isspace s)))"

text \<open>
  \<^verbatim>\<open>s.replace(old, new)\<close>: every non-overlapping occurrence of \<open>old\<close>, scanning from the
  left, is replaced by \<open>new\<close>. With an empty \<open>old\<close> Python inserts \<open>new\<close> before every
  character and at the end.
\<close>

function replace_all :: "string \<Rightarrow> string \<Rightarrow> string \<Rightarrow> string" where
  "replace_all old new [] = []"
| "replace_all old new (c # cs) =
     (if old \<noteq> [] \<and> startswith (c # cs) old
      then new @ replace_all old new (drop (length old) (c # cs))
      else c # replace_all old new cs)"
  by pat_completeness auto
termination
  by (relation "measure (\<lambda>(old, new, s). length s)") (auto simp: neq_Nil_conv)

definition replace :: "string \<Rightarrow> string \<Rightarrow> string \<Rightarrow> string" where
  "replace old new s =
     (if old = [] then new @ concat (map (\<lambda>c. c # new) s) else replace_all old new s)"

text \<open>
  The two objects the option schema binds to: \<^verbatim>\<open>interpreter\<close> and \<^verbatim>\<open>interpreter.llm\<close>.
  Both are mutated in place; the heap gives the value of every attribute of both. An
  attribute holding \<^verbatim>\<open>None\<close> is \<open>PNone\<close>. The attributes the function reads
  (\<^verbatim>\<open>auto_run\<close>, \<^verbatim>\<open>safe_mode\<close>, \<^verbatim>\<open>offline\<close>, and \<^verbatim>\<open>model\<close>, \<^verbatim>\<open>context_window\<close>, \<^verbatim>\<open>max_tokens\<close>,
  \<^verbatim>\<open>supports_functions\<close>, \<^verbatim>\<open>api_base\<close> of the llm) exist on the object that comes in: its
  constructor, in another file of the repository, defines them.
\<close>

datatype obj = Interpreter | Llm

type_synonym heap = "obj \<times> string \<Rightarrow> pyval"

text \<open>\<^verbatim>\<open>obj.__class__.__name__.lower()\<close>, used in the verbose diagnostic of the binder.\<close>

fun class_name_lower :: "obj \<Rightarrow> string" where
  "class_name_lower Interpreter = ''openinterpreter''"
| "class_name_lower Llm = ''llm''"

section \<open>The option schema\<close>

text \<open>
  One record per dictionary of the list \<^verbatim>\<open>arguments\<close> (lines 20--240). A key that a
  dictionary does not have is \<open>None\<close>. The help texts only feed the usage message and
  are left out.
\<close>

datatype pytype = TBool | TStr | TInt | TFloat

record argument =
  arg_name :: string
  nickname :: "string option"
  arg_type :: pytype
  arg_default :: "pyval option"
  attribute :: "(obj \<times> string) option"
  action :: "string option"
  choices :: "string list option"
  nargs :: "string option"

definition opt :: "string \<Rightarrow> string option \<Rightarrow> pytype \<Rightarrow> (obj \<times> string) option \<Rightarrow> argument" where
  "opt n nick ty attr =
     \<lparr>arg_name = n, nickname = nick, arg_type = ty, arg_default = None, attribute = attr,
      action = None, choices = None, nargs = None\<rparr>"

definition arguments :: "argument list" where
  "arguments =
    [(opt ''profile'' (Some ''p'') TStr None)\<lparr>arg_default := Some (PStr ''default.yaml'')\<rparr>,
     opt ''custom_instructions'' (Some ''ci'') TStr (Some (Interpreter, ''custom_instructions'')),
     opt ''system_message'' (Some ''s'') TStr (Some (Interpreter, ''system_message'')),
     opt ''auto_run'' (Some ''y'') TBool (Some (Interpreter, ''auto_run'')),
     opt ''verbose'' (Some ''v'') TBool (Some (Interpreter, ''verbose'')),
     opt ''model'' (Some ''m'') TStr (Some (Llm, ''model'')),
     opt ''temperature'' (Some ''t'') TFloat (Some (Llm, ''temperature'')),
     (opt ''llm_supports_vision'' (Some ''lsv'') TBool (Some (Llm, ''supports_vision'')))
        \<lparr>action := Some ''BooleanOptionalAction''\<rparr>,
     (opt ''llm_supports_functions'' (Some ''lsf'') TBool (Some (Llm, ''supports_functions'')))
        \<lparr>action := Some ''BooleanOptionalAction''\<rparr>,
     opt ''context_window'' (Some ''cw'') TInt (Some (Llm, ''context_window'')),
     opt ''max_tokens'' (Some ''x'') TInt (Some (Llm, ''max_tokens'')),
     opt ''max_budget'' (Some ''b'') TFloat (Some (Llm, ''max_budget'')),
     opt ''api_base'' (Some ''ab'') TStr (Some (Llm, ''api_base'')),
     opt ''api_key'' (Some ''ak'') TStr (Some (Llm, ''api_key'')),
     opt ''api_version'' (Some ''av'') TStr (Some (Llm, ''api_version'')),
     opt ''max_output'' (Some ''xo'') TInt (Some (Interpreter, ''max_output'')),
     opt ''force_task_completion'' (Some ''fc'') TBool (Some (Interpreter, ''force_task_completion'')),
     (opt ''disable_telemetry'' (Some ''dt'') TBool (Some (Interpreter, ''disable_telemetry'')))
        \<lparr>arg_default := Some (PBool False)\<rparr>,
     opt ''offline'' (Some ''o'') TBool (Some (Interpreter, ''offline'')),
     opt ''speak_messages'' (Some ''sm'') TBool (Some (Interpreter, ''speak_messages'')),
     (opt ''safe_mode'' (Some ''safe'') TStr (Some (Interpreter, ''safe_mode'')))
        \<lparr>choices := Some [''off'', ''ask'', ''auto''], arg_default := Some (PStr ''off'')\<rparr>,
     opt ''debug'' (Some ''debug'') TBool (Some (Interpreter, ''debug'')),
     opt ''fast'' (Some ''f'') TBool None,
     opt ''multi_line'' (Some ''ml'') TBool (Some (Interpreter, ''multi_line'')),
     opt ''local'' (Some ''l'') TBool None,
     opt ''vision'' (Some ''vi'') TBool None,
     opt ''os'' (Some ''os'') TBool None,
     (opt ''reset_profile'' None TStr None)
        \<lparr>arg_default := Some (PStr ''NOT_PROVIDED''), nargs := Some ''?''\<rparr>,
     opt ''profiles'' None TBool None,
     opt ''local_models'' None TBool None,
     opt ''conversations'' None TBool None,
     opt ''server'' None TBool None,
     opt ''version'' None TBool None]"

text \<open>
  \<^verbatim>\<open>get_argument_dictionary\<close> (lines 632--635): the first dictionary with that name;
  \<open>None\<close> stands for the empty dictionary \<^verbatim>\<open>{}\<close> returned when there is none.
\<close>

definition get_argument_dictionary :: "argument list \<Rightarrow> string \<Rightarrow> argument option" where
  "get_argument_dictionary arguments' key =
     (case filter (\<lambda>x. arg_name x = key) arguments' of
        [] \<Rightarrow> None
      | argument_dictionary # _ \<Rightarrow> Some argument_dictionary)"

section \<open>Parsed options\<close>

text \<open>
  The \<^verbatim>\<open>argparse.Namespace\<close> has one entry per \<^verbatim>\<open>add_argument\<close> call (lines 259--291),
  keyed by \<^verbatim>\<open>dest = arg["name"]\<close>, so a namespace gives a value to every option name.
  \<^verbatim>\<open>vars(args).items()\<close> lists the entries in the order the options were added, which is
  the order of the schema.
\<close>

type_synonym namespace = "string \<Rightarrow> pyval"

definition vars :: "namespace \<Rightarrow> (string \<times> pyval) list" where
  "vars args' = map (\<lambda>a. (arg_name a, args' (arg_name a))) arguments"

text \<open>
  What the parser built by lines 259--291 delivers for an option that is not on the
  command line: \<^verbatim>\<open>default = arg.get("default")\<close>, that is \<^verbatim>\<open>None\<close> unless the schema
  declares a default.
\<close>

definition parse_defaults :: namespace where
  "parse_defaults key =
     (case get_argument_dictionary arguments key of
        Some d \<Rightarrow> (case arg_default d of Some v \<Rightarrow> v | None \<Rightarrow> PNone)
      | None \<Rightarrow> PNone)"


section \<open>Effects and collaborators\<close>

text \<open>
  Everything the function does to the outside is recorded, in order, as an event.
  \<open>Print s\<close> is \<^verbatim>\<open>print(s)\<close>. Two messages embed the \<^verbatim>\<open>str\<close> or \<^verbatim>\<open>repr\<close> of a value and
  are kept structured: \<open>Print_unrecognized xs\<close> is line 297,
  \<^verbatim>\<open>print(f"\nUnrecognized argument(s): {unknown_args}")\<close>, and \<open>Print_setting a c v\<close> is
  the verbose line of the binder (lines 627--629) for attribute \<open>a\<close>, class name \<open>c\<close>
  and value \<open>v\<close>. The other events are the calls to the collaborators.
\<close>

datatype event =
    Print string
  | Print_unrecognized "string list"
  | Print_usage
  | Print_setting string string pyval
  | Sleep real
  | Open_storage_dir string
  | Reset_profile pyval
  | Display_markdown_message string
  | Input string
  | Computer_run string string pyval
  | Profile pyval
  | Check_for_update
  | Conversation_navigator
  | Server
  | Validate_llm_settings
  | Chat

text \<open>
  The packages that can be imported are the part of the outside world the function
  observes (\<^verbatim>\<open>__import__(package)\<close>); running a command through
  \<^verbatim>\<open>interpreter.computer.run\<close> may change it.
\<close>

type_synonym world = "string list"

datatype parse_result = Parse_exit int | Parsed namespace "string list"

text \<open>
  The collaborators, none of which is defined in this file of the repository:
  \<^item> \<open>parse_known_args\<close>: \<^verbatim>\<open>parser.parse_known_args()\<close> on \<^verbatim>\<open>sys.argv\<close>; argparse either
    exits the process itself or returns the namespace and the unknown arguments;
  \<^item> \<open>profile\<close>: the profile loader \<^verbatim>\<open>profile(interpreter, name)\<close>, which sets attributes
    of the interpreter and of its llm in place and returns the same object;
  \<^item> \<open>input\<close>: the line the user types at a prompt;
  \<^item> \<open>computer_run\<close>: what \<^verbatim>\<open>interpreter.computer.run(kind, code)\<close> does to the set of
    importable packages;
  \<^item> \<open>check_for_update\<close>: the result of \<^verbatim>\<open>check_for_update()\<close>, \<open>None\<close> when it raises;
  \<^item> \<open>version\<close>: \<^verbatim>\<open>pkg_resources.get_distribution("open-interpreter").version\<close>.
\<close>

record env =
  parse_known_args :: "string list \<Rightarrow> parse_result"
  profile :: "heap \<Rightarrow> pyval \<Rightarrow> heap"
  input :: "string \<Rightarrow> string"
  computer_run :: "string \<Rightarrow> string \<Rightarrow> world \<Rightarrow> world"
  check_for_update :: "bool option"
  version :: string

datatype error = AttributeError | KeyError

datatype outcome = Returned | Exited int | Raised error

record state =
  heap :: heap
  args :: namespace
  out :: "event list"
  world :: world

definition emit :: "event list \<Rightarrow> state \<Rightarrow> state" where
  "emit es s = s\<lparr>out := out s @ es\<rparr>"

text \<open>\<^verbatim>\<open>args.key = v\<close>\<close>

definition set_arg :: "string \<Rightarrow> pyval \<Rightarrow> state \<Rightarrow> state" where
  "set_arg key v s = s\<lparr>args := (args s)(key := v)\<rparr>"

section \<open>Attribute binder\<close>

text \<open>
  \<^verbatim>\<open>set_attributes\<close> (lines 618--629). One step of the loop treats one item of
  \<^verbatim>\<open>vars(args).items()\<close>.
\<close>

definition set_attribute ::
  "namespace \<Rightarrow> argument list \<Rightarrow> string \<times> pyval \<Rightarrow> heap \<times> event list \<Rightarrow> heap \<times> event list" where
  "set_attribute args' arguments' item ho =
     (case item of (argument_name, argument_value) \<Rightarrow>
        if argument_value \<noteq> PNone then
          (case get_argument_dictionary arguments' argument_name of
             Some argument_dictionary \<Rightarrow>
               (case attribute argument_dictionary of
                  Some (ob, attr_name) \<Rightarrow>
                    ((fst ho)((ob, attr_name) := argument_value),
                     snd ho @ (if truthy (args' ''verbose'')
                               then [Print_setting attr_name (class_name_lower ob) argument_value]
                               else []))
                | None \<Rightarrow> ho)
           | None \<Rightarrow> ho)
        else ho)"

definition set_attributes ::
  "namespace \<Rightarrow> argument list \<Rightarrow> heap \<times> event list \<Rightarrow> heap \<times> event list" where
  "set_attributes args' arguments' ho = fold (set_attribute args' arguments') (vars args') ho"

definition bind :: "state \<Rightarrow> state" where
  "bind s =
     (case set_attributes (args s) arguments (heap s, out s) of
        (h, es) \<Rightarrow> s\<lparr>heap := h, out := es\<rparr>)"

section \<open>Before parsing, parsing, and the special commands\<close>

text \<open>Lines 243--252: a deprecated flag is announced, removed and its new name appended.\<close>

definition deprecated_flags :: "(string \<times> string) list" where
  "deprecated_flags = [(''--debug_mode'', ''--verbose'')]"

fun rewrite_deprecated ::
  "(string \<times> string) list \<Rightarrow> string list \<times> event list \<Rightarrow> string list \<times> event list" where
  "rewrite_deprecated [] (argv, es) = (argv, es)"
| "rewrite_deprecated ((old_flag, new_flag) # rest) (argv, es) =
     (if old_flag \<in> set argv
      then rewrite_deprecated rest
             (remove1 old_flag argv @ [new_flag],
              es @ [Print (''\<newline>`'' @ old_flag @ ''` has been renamed to `'' @ new_flag
                           @ ''`.\<newline>''),
                    Sleep 1.5])
      else rewrite_deprecated rest (argv, es))"

definition documentation_link :: string where
  "documentation_link = ''For detailed documentation of supported arguments, please visit: https://docs.openinterpreter.com/settings/all-settings''"

text \<open>Lines 296--302.\<close>

definition unknown_arguments_report :: "string list \<Rightarrow> event list" where
  "unknown_arguments_report unknown_args =
     [Print_unrecognized unknown_args, Print_usage, Print documentation_link]"

text \<open>
  Lines 304--322: the commands that return at once. \<open>None\<close> means that none applies and
  the function goes on.
\<close>

definition special_commands :: "env \<Rightarrow> state \<Rightarrow> state option" where
  "special_commands e s =
     (if truthy (args s ''profiles'') then Some (emit [Open_storage_dir ''profiles''] s)
      else if truthy (args s ''local_models'') then Some (emit [Open_storage_dir ''models''] s)
      else if args s ''reset_profile'' \<noteq> PNone \<and> args s ''reset_profile'' \<noteq> PStr ''NOT_PROVIDED''
        then Some (emit [Reset_profile (args s ''reset_profile'')] s)
      else if truthy (args s ''version'')
        then Some (emit [Print (''Open Interpreter '' @ version e @ '' '' @ ''New Computer Update'')] s)
      else None)"

text \<open>Lines 324--328: safe mode disables auto run, read from the object as it comes in.\<close>

definition safe_mode_disables_auto_run :: "heap \<Rightarrow> heap" where
  "safe_mode_disables_auto_run h =
     (if truthy (h (Interpreter, ''auto_run''))
         \<and> (h (Interpreter, ''safe_mode'') = PStr ''ask'' \<or> h (Interpreter, ''safe_mode'') = PStr ''auto'')
      then h((Interpreter, ''auto_run'') := PBool False)
      else h)"

section \<open>Mode expander\<close>

text \<open>
  The system message of OS mode (lines 350--414) is the literal below with \<^verbatim>\<open>.strip()\<close>
  applied. The literal is given line by line: the lines before the icon line (352--375),
  the icon line as it stands in the message (376), and the lines after it (377--412);
  around them the literal has a first empty line, a line of eight blanks before and
  after the text, and eight blanks before the closing quotes.
\<close>

definition os_message_before :: "string list" where
  \<open>os_message_before =
    [''You are Open Interpreter, a world-class programmer that can complete any goal by executing code.'',
     '''',
     ''When you write code, it will be executed **on the user's machine**. The user has given you **full and complete permission** to execute any code necessary to complete the task.'',
     '''',
     ''When a user refers to a filename, they're likely referring to an existing file in the directory you're currently executing code in.'',
     '''',
     ''In general, try to make plans with as few steps as possible. As for actually executing code to carry out that plan, **don't try to do everything in one code block.** You should try something, print information about it, then continue from there in tiny, informed steps. You will never get it on the first try, and attempting it in one go will often lead to errors you cant see.'',
     '''',
     ''Manually summarize text.'',
     '''',
     ''Do not try to write code that attempts the entire task at once, and verify at each step whether or not you're on track.'',
     '''',
     ''# Computer'',
     '''',
     ''You may use the `interpreter` Python module to complete tasks:'',
     '''',
     ''```python'',
     ''interpreter.interpreter.computer.display.view() # Shows you what's on the screen, returns a `pil_image` `in case you need it (rarely). **You almost always want to do this first!**'',
     '''',
     ''interpreter.interpreter.computer.keyboard.write("hello")'',
     '''',
     ''interpreter.interpreter.computer.mouse.click("text onscreen") # This clicks on the UI element with that text. Use this **frequently** and get creative! To click a video, you could pass the *timestamp* (which is usually written on the thumbnail) into this.'',
     ''interpreter.interpreter.computer.mouse.move("open recent >") # This moves the mouse over the UI element with that text. Many dropdowns will disappear if you click them. You have to hover over items to reveal more.'',
     ''interpreter.interpreter.computer.mouse.click(x=500, y=500) # Use this very, very rarely. It's highly inaccurate'']\<close>

definition os_message_icon :: string where
  \<open>os_message_icon = ''interpreter.interpreter.computer.mouse.click(icon="gear icon") # Moves mouse to the icon with that description. Use this very often''\<close>

definition os_message_after :: "string list" where
  \<open>os_message_after =
    ['''',
     ''interpreter.interpreter.computer.mouse.scroll(-10) # Scrolls down. If you don't find some text on screen that you expected to be there, you probably want to do this'',
     ''x, y = interpreter.interpreter.computer.display.center() # Get your bearings'',
     '''',
     ''interpreter.interpreter.computer.clipboard.view() # Returns contents of clipboard'',
     ''interpreter.interpreter.computer.os.get_selected_text() # Use frequently. If editing text, the user often wants this'',
     ''```'',
     '''',
     ''For rare and complex mouse actions, consider using computer vision libraries on the `interpreter.interpreter.computer.display.view()` `pil_image` to produce a list of coordinates for the mouse to move/drag to.'',
     '''',
     ''If the user highlighted text in an editor, then asked you to modify it, they probably want you to `interpreter.interpreter.computer.keyboard.write` over their version of the text.'',
     '''',
     ''Tasks are 100% computer-based. DO NOT simply write long messages to the user to complete tasks. You MUST put your text back into the program they're using to deliver your text!'',
     '''',
     (''Clicking text is the most reliable way to use the mouse'' @ [CHR 0xC3, CHR 0xA2, CHR 0xE2, CHR 0x82, CHR 0xAC, CHR 0xE2, CHR 0x80, CHR 0x9D] @ '' for example, clicking a URL's text you see in the URL bar, or some textarea's placeholder text (like "Search" to get into a search bar).''),
     '''',
     ''Applescript might be best for some tasks.'',
     '''',
     ''If you use `plt.show()`, the resulting image will be sent to you. However, if you use `PIL.Image.show()`, the resulting image will NOT be sent to you.'',
     '''',
     ''It is very important to make sure you are focused on the right application and window. Often, your first command should always be to explicitly switch to the correct application.'',
     '''',
     ''When searching the web, use query parameters. For example, https://www.amazon.com/s?k=monitor'',
     '''',
     ''Try multiple methods before saying the task is impossible. **You can do it!**'',
     '''',
     ''# Critical Routine Procedure for Multi-Step Tasks'',
     '''',
     ''Include `interpreter.interpreter.computer.display.view()` after a 2 second delay at the end of _every_ code block to verify your progress, then answer these questions in extreme detail:'',
     '''',
     ''1. Generally, what is happening on-screen?'',
     ''2. What is the active app?'',
     ''3. What hotkeys does this app support that might get be closer to my goal?'',
     ''4. What text areas are active, if any?'',
     ''5. What text is selected?'',
     ''6. What options could you take next to get closer to your goal?'']\<close>


definition unlines :: "string list \<Rightarrow> string" where
  "unlines ls = concat (map (\<lambda>l. l @ ''\<newline>'') ls)"

definition os_system_message_literal :: string where
  "os_system_message_literal =
     ''\<newline>'' @ ''        \<newline>''
     @ unlines (os_message_before @ [os_message_icon] @ os_message_after)
     @ ''        \<newline>'' @ ''        ''"

definition os_system_message :: string where
  "os_system_message = strip os_system_message_literal"

text \<open>The text that line 419 removes when offline.\<close>

definition icon_line :: string where
  \<open>icon_line = ''interpreter.interpreter.computer.mouse.click(icon="gear icon") # Moves mouse to the icon with that description. Use this very often\<newline>''\<close>

text \<open>Lines 337--421: the settings of OS mode.\<close>

definition os_settings :: "state \<Rightarrow> state" where
  "os_settings s =
     (let h1 = (heap s)((Interpreter, ''os'') := PBool True,
                        (Llm, ''supports_vision'') := PBool True);
          args1 = (if \<not> truthy (args s ''model'')
                   then (args s)(''model'' := PStr ''gpt-4-vision-preview'')
                   else args s);
          h2 = h1((Llm, ''supports_functions'') := PBool False,
                  (Llm, ''context_window'') := PInt 110000,
                  (Llm, ''max_tokens'') := PInt 4096,
                  (Interpreter, ''auto_run'') := PBool True,
                  (Interpreter, ''force_task_completion'') := PBool True,
                  (Interpreter, ''system_message'') := PStr os_system_message);
          h3 = (if truthy (args1 ''offline'')
                then h2((Interpreter, ''system_message'') := PStr (replace icon_line [] os_system_message))
                else h2)
      in s\<lparr>heap := h3, args := args1\<rparr>)"

text \<open>Lines 428--475: the optional packages.\<close>

definition packages :: "string list" where
  "packages = [''cv2'', ''plyer'', ''pyautogui'', ''pyperclip'', ''pywinctl'']"

definition missing_packages :: "world \<Rightarrow> string list" where
  "missing_packages w = filter (\<lambda>package. package \<notin> set w) packages"

definition run :: "env \<Rightarrow> string \<Rightarrow> string \<Rightarrow> pyval \<Rightarrow> state \<Rightarrow> state" where
  "run e kind code display s =
     s\<lparr>out := out s @ [Computer_run kind code display], world := computer_run e kind code (world s)\<rparr>"

fun pip_install :: "env \<Rightarrow> string list \<Rightarrow> string list \<Rightarrow> state \<Rightarrow> state" where
  "pip_install e [] missing s = s"
| "pip_install e (pip_name # rest) missing s =
     (let command = pip_name @ '' install '' @ [CHR 0x27] @ ''open-interpreter[os]'' @ [CHR 0x27];
          s1 = run e ''shell'' command (PBool True) s;
          got_em = (\<forall>package \<in> set missing. package \<in> set (world s1))
      in if got_em then s1 else pip_install e rest missing s1)"

definition install_manually :: "event list" where
  "install_manually =
     [Print ''\<newline>Please try to install them manually.\<newline>\<newline>'',
      Sleep 2,
      Print ''Attempting to start OS control anyway...\<newline>\<newline>'']"

definition os_packages :: "env \<Rightarrow> state \<Rightarrow> state" where
  "os_packages e s =
     (let missing = missing_packages (world s) in
      if missing \<noteq> [] then
        (let s1 = emit [Display_markdown_message
                         (''> **Missing Package(s): ''
                          @ join '', '' (map (\<lambda>p. ''`'' @ p @ ''`'') missing)
                          @ ''**\<newline>\<newline>These packages are required for OS Control.\<newline>\<newline>Install them?\<newline>''),
                        Input ''(y/n) > ''] s;
             user_input = input e ''(y/n) > '';
             s2 = (if lower user_input \<noteq> ''y'' then emit install_manually s1 else s1);
             s3 = pip_install e [''pip'', ''pip3''] missing s2;
             missing' = missing_packages (world s3)
         in if missing' \<noteq> []
            then emit (Print (''\<newline>\<newline>Warning: The following packages could not be installed:''
                              @ '' '' @ join '', '' missing')
                       # install_manually) s3
            else s3)
      else s)"

text \<open>Lines 476--525: the banners, the access to the computer, and the profile of OS mode.\<close>

definition os_banners :: "env \<Rightarrow> state \<Rightarrow> state" where
  \<open>os_banners e s =
     (let s1 = emit [Display_markdown_message ''> `OS Control` enabled''] s;
          s2 = (if \<not> truthy (args s1 ''offline'') \<and> \<not> truthy (args s1 ''auto_run'')
                then emit [Display_markdown_message ''To find items on the screen, Open Interpreter has been instructed to send screenshots to [api.openinterpreter.com](https://api.openinterpreter.com/) (we do not store them). Add `--offline` to attempt this locally.'',
                           Print []] s1
                else s1);
          s3 = (if \<not> truthy (args s2 ''auto_run'')
                then emit [Display_markdown_message ''**Make sure that screen recording permissions are enabled for your Terminal or Python environment.**'',
                           Print []] s2
                else s2);
          s4 = run e ''python''
                 ''import time\<newline>from interpreter import interpreter\<newline>computer = interpreter.interpreter.computer''
                 (args s3 ''verbose'') s3;
          s5 = (if \<not> truthy (args s4 ''auto_run'')
                then emit [Display_markdown_message ''**Warning:** In this mode, Open Interpreter will not require approval before performing actions. Be ready to close your terminal.'',
                           Print []] s4
                else s4)
      in set_arg ''profile'' (PStr ''os.py'') s5)\<close>

text \<open>Lines 330--528.\<close>

definition mode_expander :: "env \<Rightarrow> state \<Rightarrow> state" where
  "mode_expander e s =
     (let s1 = (if truthy (args s ''fast'') then set_arg ''profile'' (PStr ''fast.yaml'') s else s);
          s2 = (if truthy (args s1 ''vision'') then set_arg ''profile'' (PStr ''vision.yaml'') s1 else s1);
          s3 = (if truthy (args s2 ''os'') then os_banners e (os_packages e (os_settings s2)) else s2)
      in if truthy (args s3 ''local'') then set_arg ''profile'' (PStr ''local.py'') s3 else s3)"

section \<open>Precedence resolver\<close>

text \<open>
  Line 536: \<^verbatim>\<open>args.profile or get_argument_dictionary(arguments, "profile")["default"]\<close>.
  Subscripting a dictionary without the key raises \<^verbatim>\<open>KeyError\<close>.
\<close>

definition profile_argument :: "namespace \<Rightarrow> error + pyval" where
  "profile_argument args' =
     (if truthy (args' ''profile'') then Inr (args' ''profile'')
      else (case get_argument_dictionary arguments ''profile'' of
              Some d \<Rightarrow> (case arg_default d of Some v \<Rightarrow> Inr v | None \<Rightarrow> Inl KeyError)
            | None \<Rightarrow> Inl KeyError))"

text \<open>
  Lines 532--540: binder, profile, binder. The result is the error raised, if any, and
  the state reached.
\<close>

definition resolve :: "env \<Rightarrow> state \<Rightarrow> error option \<times> state" where
  "resolve e s =
     (let s1 = bind s in
      case profile_argument (args s1) of
        Inl err \<Rightarrow> (Some err, s1)
      | Inr p \<Rightarrow>
          (None, bind (s1\<lparr>heap := profile e (heap s1) p, out := out s1 @ [Profile p]\<rparr>)))"

section \<open>Model default inferencer\<close>

definition set_if_none :: "obj \<times> string \<Rightarrow> pyval \<Rightarrow> heap \<Rightarrow> heap" where
  "set_if_none field v h = (if h field = PNone then h(field := v) else h)"

text \<open>
  The three \<^verbatim>\<open>if ... is None\<close> assignments that each branch of lines 544--574 makes, in
  the order of the source.
\<close>

definition fill_defaults :: "int \<Rightarrow> int \<Rightarrow> bool \<Rightarrow> heap \<Rightarrow> heap" where
  "fill_defaults context_window max_tokens supports_functions h =
     set_if_none (Llm, ''supports_functions'') (PBool supports_functions)
       (set_if_none (Llm, ''max_tokens'') (PInt max_tokens)
          (set_if_none (Llm, ''context_window'') (PInt context_window) h))"

text \<open>
  Lines 544--574. A model name that is not a string has no \<^verbatim>\<open>startswith\<close>: line 554
  raises \<^verbatim>\<open>AttributeError\<close> before anything is written.
\<close>

definition infer_model_defaults :: "heap \<Rightarrow> error + heap" where
  "infer_model_defaults h =
     (case h (Llm, ''model'') of
        PStr model \<Rightarrow>
          (let h1 = (if model = ''gpt-4'' \<or> model = ''openai/gpt-4''
                     then fill_defaults 6500 4096 (if py_in ''vision'' model then False else True) h
                     else if startswith model ''gpt-4'' \<or> startswith model ''openai/gpt-4''
                     then fill_defaults 123000 4096 (if py_in ''vision'' model then False else True) h
                     else h)
           in Inr (if startswith model ''gpt-3.5-turbo'' \<or> startswith model ''openai/gpt-3.5-turbo''
                   then fill_defaults 16000 4096 True h1
                   else h1))
      | _ \<Rightarrow> Inl AttributeError)"

text \<open>Lines 578--587: a failing update check is swallowed.\<close>

definition update_check :: "env \<Rightarrow> state \<Rightarrow> state" where
  "update_check e s =
     (if \<not> truthy (heap s (Interpreter, ''offline''))
      then emit (Check_for_update
                 # (if check_for_update e = Some True
                    then [Display_markdown_message ''> **A new version of Open Interpreter is available.**\<newline>>Please run: `pip install --upgrade open-interpreter`\<newline>\<newline>---'']
                    else [])) s
      else s)"

text \<open>Lines 589--600.\<close>

definition api_base_rewrite :: "heap \<Rightarrow> error + heap" where
  "api_base_rewrite h =
     (if truthy (h (Llm, ''api_base'')) then
        (case h (Llm, ''model'') of
           PStr model \<Rightarrow>
             if \<not> startswith (lower model) ''openai/''
                \<and> \<not> startswith (lower model) ''azure/''
                \<and> \<not> startswith (lower model) ''ollama''
                \<and> \<not> startswith (lower model) ''jan''
                \<and> \<not> startswith (lower model) ''local''
             then Inr (h((Llm, ''model'') := PStr (''openai/'' @ model)))
             else if startswith (lower model) ''jan/''
             then Inr (h((Llm, ''model'') := PStr (drop 4 model)))
             else Inr h
         | _ \<Rightarrow> Inl AttributeError)
      else Inr h)"

section \<open>The whole function\<close>

text \<open>Lines 603--615.\<close>

definition launch :: "state \<Rightarrow> state" where
  "launch s =
     (if truthy (args s ''conversations'') then emit [Conversation_navigator] s
      else if truthy (args s ''server'') then emit [Server] s
      else emit [Chat]
             ((emit [Validate_llm_settings] s)
                \<lparr>heap := (heap s)((Interpreter, ''in_terminal_interface'') := PBool True)\<rparr>))"

text \<open>Lines 324--615, for a namespace that no special command applies to.\<close>

definition configure_and_launch :: "env \<Rightarrow> state \<Rightarrow> outcome \<times> state" where
  "configure_and_launch e s =
     (case resolve e (mode_expander e (s\<lparr>heap := safe_mode_disables_auto_run (heap s)\<rparr>)) of
        (Some err, s1) \<Rightarrow> (Raised err, s1)
      | (None, s1) \<Rightarrow>
          (case infer_model_defaults (heap s1) of
             Inl err \<Rightarrow> (Raised err, s1)
           | Inr h2 \<Rightarrow>
               (let s2 = update_check e (s1\<lparr>heap := h2\<rparr>) in
                case api_base_rewrite (heap s2) of
                  Inl err \<Rightarrow> (Raised err, s2)
                | Inr h3 \<Rightarrow> (Returned, launch (s2\<lparr>heap := h3\<rparr>)))))"

text \<open>
  \<^verbatim>\<open>start_terminal_interface\<close> (lines 15--615), from \<^verbatim>\<open>sys.argv\<close>, the interpreter object
  and the importable packages to the way the call ends and the state it leaves. Until
  the arguments are parsed the namespace of the state is the one of an empty command
  line.
\<close>

definition start_terminal_interface :: "env \<Rightarrow> string list \<Rightarrow> heap \<Rightarrow> world \<Rightarrow> outcome \<times> state" where
  "start_terminal_interface e argv h w =
     (case rewrite_deprecated deprecated_flags (argv, []) of
        (argv', es) \<Rightarrow>
          (case parse_known_args e argv' of
             Parse_exit status \<Rightarrow>
               (Exited status, \<lparr>heap = h, args = parse_defaults, out = es, world = w\<rparr>)
           | Parsed args' unknown_args \<Rightarrow>
               (let s = \<lparr>heap = h, args = args', out = es, world = w\<rparr> in
                if unknown_args \<noteq> [] then (Exited 1, emit (unknown_arguments_report unknown_args) s)
                else (case special_commands e s of
                        Some s' \<Rightarrow> (Returned, s')
                      | None \<Rightarrow> configure_and_launch e s))))"

section \<open>Auxiliary definitions\<close>

text \<open>The target an option is bound to, and the option bound to a target, read off the schema.\<close>

definition binding :: "string \<Rightarrow> (obj \<times> string) option" where
  "binding key = (case get_argument_dictionary arguments key of Some d \<Rightarrow> attribute d | None \<Rightarrow> None)"

definition bound_option :: "obj \<times> string \<Rightarrow> string option" where
  "bound_option = map_of (concat (map (\<lambda>d. case attribute d of Some t \<Rightarrow> [(t, arg_name d)] | None \<Rightarrow> []) arguments))"

text \<open>
  An interpreter object as it may come in, used for concrete runs: model \<^verbatim>\<open>gpt-4\<close>, auto run
  off, safe mode off, online, every other attribute \<^verbatim>\<open>None\<close>.
\<close>

definition example_heap :: heap where
  "example_heap =
     (\<lambda>_. PNone)((Llm, ''model'') := PStr ''gpt-4'', (Interpreter, ''auto_run'') := PBool False,
                  (Interpreter, ''safe_mode'') := PStr ''off'', (Interpreter, ''offline'') := PBool False)"

text \<open>
  Collaborators for concrete runs: the parser delivers the given namespace and unknown
  arguments, the user gives the given answer, a shell command has the given effect on
  the importable packages, and no update is available.
\<close>

definition example_env ::
  "namespace \<Rightarrow> string list \<Rightarrow> (heap \<Rightarrow> pyval \<Rightarrow> heap) \<Rightarrow> string \<Rightarrow> (string \<Rightarrow> world \<Rightarrow> world) \<Rightarrow> env" where
  "example_env a unknown prof answer shell =
     \<lparr>parse_known_args = (\<lambda>argv. Parsed a unknown), profile = prof, input = (\<lambda>prompt. answer),
      computer_run = (\<lambda>kind code w. if kind = ''shell'' then shell code w else w),
      check_for_update = Some False, version = ''0.2.0''\<rparr>"


text \<open>
  A profile that sets nothing, a profile that sets a model, a context window, safe mode
  and the telemetry switch, a shell in which installing fails, and one in which it
  succeeds.
\<close>

definition no_profile :: "heap \<Rightarrow> pyval \<Rightarrow> heap" where
  "no_profile h p = h"

definition example_profile :: "heap \<Rightarrow> pyval \<Rightarrow> heap" where
  "example_profile h p =
     h((Llm, ''model'') := PStr ''my-model'', (Llm, ''context_window'') := PInt 4000,
       (Interpreter, ''safe_mode'') := PStr ''ask'', (Interpreter, ''disable_telemetry'') := PBool True)"

definition pip_fails :: "string \<Rightarrow> world \<Rightarrow> world" where
  "pip_fails code w = w"

definition pip_installs :: "string \<Rightarrow> world \<Rightarrow> world" where
  "pip_installs code w = packages"

text \<open>
  Collaborators for a run in which argparse ends the process itself, before it returns to
  line 293: it does so with status 0 when \<^verbatim>\<open>--help\<close> is among the arguments, and with
  status 2 when the value of an option is invalid, whether or not an unknown flag is there
  too.
\<close>

definition exiting_env :: "int \<Rightarrow> env" where
  "exiting_env status =
     \<lparr>parse_known_args = (\<lambda>argv. Parse_exit status), profile = no_profile, input = (\<lambda>prompt. ''n''),
      computer_run = (\<lambda>kind code w. w), check_for_update = Some False, version = ''0.2.0''\<rparr>"

text \<open>
  The arguments of the calls to the profile loader, in the order of the calls.
\<close>

fun profile_calls :: "event list \<Rightarrow> pyval list" where
  "profile_calls [] = []"
| "profile_calls (Profile p # es) = p # profile_calls es"
| "profile_calls (_ # es) = profile_calls es"

section \<open>The schema and the binder\<close>

text \<open>
  The names of the schema are distinct and no two options are bound to the same field, so
  one pass of the binder writes each bound field at most once: the field of an option
  whose value is not \<^verbatim>\<open>None\<close> gets that value, and every other field is left as it was.
\<close>

lemma get_argument_dictionary_SomeD:
  "get_argument_dictionary sch key = Some d \<Longrightarrow> d \<in> set sch \<and> arg_name d = key"
proof -
  assume a: "get_argument_dictionary sch key = Some d"
  then obtain rest where "filter (\<lambda>x. arg_name x = key) sch = d # rest"
    by (auto simp: get_argument_dictionary_def split: list.splits)
  then have "d \<in> set (filter (\<lambda>x. arg_name x = key) sch)" by simp
  then show ?thesis by simp
qed

lemma bound_targets:
  "map (\<lambda>d. (attribute d, arg_name d)) (filter (\<lambda>d. attribute d \<noteq> None) arguments) =
    [(Some (Interpreter, ''custom_instructions''), ''custom_instructions''),
     (Some (Interpreter, ''system_message''), ''system_message''),
     (Some (Interpreter, ''auto_run''), ''auto_run''),
     (Some (Interpreter, ''verbose''), ''verbose''),
     (Some (Llm, ''model''), ''model''),
     (Some (Llm, ''temperature''), ''temperature''),
     (Some (Llm, ''supports_vision''), ''llm_supports_vision''),
     (Some (Llm, ''supports_functions''), ''llm_supports_functions''),
     (Some (Llm, ''context_window''), ''context_window''),
     (Some (Llm, ''max_tokens''), ''max_tokens''),
     (Some (Llm, ''max_budget''), ''max_budget''),
     (Some (Llm, ''api_base''), ''api_base''),
     (Some (Llm, ''api_key''), ''api_key''),
     (Some (Llm, ''api_version''), ''api_version''),
     (Some (Interpreter, ''max_output''), ''max_output''),
     (Some (Interpreter, ''force_task_completion''), ''force_task_completion''),
     (Some (Interpreter, ''disable_telemetry''), ''disable_telemetry''),
     (Some (Interpreter, ''offline''), ''offline''),
     (Some (Interpreter, ''speak_messages''), ''speak_messages''),
     (Some (Interpreter, ''safe_mode''), ''safe_mode''),
     (Some (Interpreter, ''debug''), ''debug''),
     (Some (Interpreter, ''multi_line''), ''multi_line'')]"
  by (simp add: arguments_def opt_def)

lemma bound_targets_distinct:
  "distinct (map (\<lambda>d. attribute d) (filter (\<lambda>d. attribute d \<noteq> None) arguments))"
proof -
  have "map (\<lambda>d. attribute d) (filter (\<lambda>d. attribute d \<noteq> None) arguments)
        = map fst (map (\<lambda>d. (attribute d, arg_name d)) (filter (\<lambda>d. attribute d \<noteq> None) arguments))"
    by (simp add: comp_def)
  also have "distinct \<dots>" unfolding bound_targets by simp
  finally show ?thesis .
qed

lemma names_distinct: "distinct (map arg_name arguments)"
  by (simp add: arguments_def opt_def)

lemma binding_inj:
  assumes "binding k = Some t" "binding k' = Some t"
  shows "k = k'"
proof -
  from assms(1) obtain d where d: "d \<in> set arguments" "arg_name d = k" "attribute d = Some t"
    by (auto simp: binding_def split: option.splits dest: get_argument_dictionary_SomeD)
  from assms(2) obtain d' where d': "d' \<in> set arguments" "arg_name d' = k'" "attribute d' = Some t"
    by (auto simp: binding_def split: option.splits dest: get_argument_dictionary_SomeD)
  have "d \<in> set (filter (\<lambda>d. attribute d \<noteq> None) arguments)"
       "d' \<in> set (filter (\<lambda>d. attribute d \<noteq> None) arguments)"
    using d d' by simp_all
  with bound_targets_distinct d(3) d'(3) have "d = d'"
    by (metis distinct_map inj_on_def)
  with d d' show ?thesis by simp
qed

lemma binding_in_vars:
  assumes "binding k = Some t"
  shows "(k, a k) \<in> set (vars a)"
proof -
  from assms obtain d where d: "d \<in> set arguments" "arg_name d = k"
    by (auto simp: binding_def split: option.splits dest: get_argument_dictionary_SomeD)
  then show ?thesis by (force simp: vars_def)
qed

lemma vars_snd: "(k, v) \<in> set (vars a) \<Longrightarrow> v = a k"
  by (auto simp: vars_def)

lemma set_attribute_heap:
  "fst (set_attribute a arguments (k, v) ho) =
     (if v \<noteq> PNone \<and> binding k \<noteq> None then (fst ho)(the (binding k) := v) else fst ho)"
  by (auto simp: set_attribute_def binding_def split: option.splits)

lemma fold_set_attribute_heap:
  "fst (fold (set_attribute a arguments) items ho) t =
     (if filter (\<lambda>x. snd x \<noteq> PNone \<and> binding (fst x) = Some t) items = [] then fst ho t
      else snd (last (filter (\<lambda>x. snd x \<noteq> PNone \<and> binding (fst x) = Some t) items)))"
proof (induction items arbitrary: ho)
  case Nil
  then show ?case by simp
next
  case (Cons x items)
  obtain k v where x: "x = (k, v)" by (cases x)
  show ?case
    unfolding x
    by (auto simp add: Cons.IH set_attribute_heap)
qed

lemma last_filter_props:
  "filter P ys \<noteq> [] \<Longrightarrow> last (filter P ys) \<in> set ys \<and> P (last (filter P ys))"
  using last_in_set [of "filter P ys"] by simp

lemma set_attributes_hit:
  assumes "binding k = Some t" "a k \<noteq> PNone"
  shows "fst (set_attributes a arguments ho) t = a k"
proof -
  define P where "P = (\<lambda>x :: string \<times> pyval. snd x \<noteq> PNone \<and> binding (fst x) = Some t)"
  have "(k, a k) \<in> set (filter P (vars a))"
    using assms binding_in_vars by (simp add: P_def)
  then have ne: "filter P (vars a) \<noteq> []" by (metis empty_iff empty_set)
  then have A: "last (filter P (vars a)) \<in> set (vars a)" and B: "P (last (filter P (vars a)))"
    using last_filter_props [of P "vars a"] by blast+
  obtain k' v' where l: "last (filter P (vars a)) = (k', v')" by (cases "last (filter P (vars a))")
  with A B have "(k', v') \<in> set (vars a)" "binding k' = Some t" by (simp_all add: P_def)
  then have "k' = k" "v' = a k'" using assms(1) binding_inj vars_snd by blast+
  with l ne show ?thesis
    by (simp add: set_attributes_def fold_set_attribute_heap P_def [symmetric])
qed

lemma set_attributes_miss:
  assumes "\<And>k. binding k = Some t \<Longrightarrow> a k = PNone"
  shows "fst (set_attributes a arguments ho) t = fst ho t"
proof -
  have "filter (\<lambda>x. snd x \<noteq> PNone \<and> binding (fst x) = Some t) (vars a) = []"
    using assms by (auto simp: filter_empty_conv dest: vars_snd)
  then show ?thesis
    by (simp add: set_attributes_def fold_set_attribute_heap)
qed

subsection \<open>What the stages leave alone\<close>

lemma bind_frame [simp]: "args (bind s) = args s" "world (bind s) = world s"
  by (simp_all add: bind_def split: prod.splits)

lemma bind_heap:
  "heap (bind s) = fst (set_attributes (args s) arguments (heap s, out s))"
  by (simp add: bind_def split: prod.splits)

lemma emit_frame [simp]:
  "args (emit es s) = args s" "heap (emit es s) = heap s" "world (emit es s) = world s"
  "out (emit es s) = out s @ es"
  by (simp_all add: emit_def)

lemma run_frame [simp]:
  "args (run e kind code display s) = args s" "heap (run e kind code display s) = heap s"
  "out (run e kind code display s) = out s @ [Computer_run kind code display]"
  by (simp_all add: run_def)

lemma set_arg_frame [simp]:
  "args (set_arg key v s) = (args s)(key := v)" "heap (set_arg key v s) = heap s"
  "out (set_arg key v s) = out s" "world (set_arg key v s) = world s"
  by (simp_all add: set_arg_def)

lemma pip_install_frame [simp]:
  "args (pip_install e pips missing s) = args s" "heap (pip_install e pips missing s) = heap s"
  by (induction pips arbitrary: s) (simp_all add: Let_def)

lemma os_packages_frame [simp]:
  "args (os_packages e s) = args s" "heap (os_packages e s) = heap s"
  by (simp_all add: os_packages_def Let_def)

lemma os_banners_frame [simp]:
  "args (os_banners e s) = (args s)(''profile'' := PStr ''os.py'')" "heap (os_banners e s) = heap s"
  by (simp_all add: os_banners_def Let_def)

lemma os_settings_args:
  "args (os_settings s) =
     (if truthy (args s ''model'') then args s else (args s)(''model'' := PStr ''gpt-4-vision-preview''))"
  by (simp add: os_settings_def Let_def)

lemma mode_expander_args_other:
  assumes "key \<noteq> ''profile''" "key \<noteq> ''model''"
  shows "args (mode_expander e s) key = args s key"
  using assms by (simp add: mode_expander_def Let_def os_settings_args)

lemma mode_expander_args_model:
  "args (mode_expander e s) ''model'' =
     (if truthy (args s ''os'') \<and> \<not> truthy (args s ''model'') then PStr ''gpt-4-vision-preview''
      else args s ''model'')"
  by (simp add: mode_expander_def Let_def os_settings_args)

lemma mode_expander_args_profile:
  "args (mode_expander e s) ''profile'' =
     (if truthy (args s ''local'') then PStr ''local.py''
      else if truthy (args s ''os'') then PStr ''os.py''
      else if truthy (args s ''vision'') then PStr ''vision.yaml''
      else if truthy (args s ''fast'') then PStr ''fast.yaml''
      else args s ''profile'')"
  by (simp add: mode_expander_def Let_def os_settings_args)

lemma profile_argument_eq:
  "profile_argument a = Inr (if truthy (a ''profile'') then a ''profile'' else PStr ''default.yaml'')"
  by (simp add: profile_argument_def get_argument_dictionary_def arguments_def opt_def)

lemma resolve_eq:
  "resolve e s =
     (None, bind ((bind s)\<lparr>heap := profile e (heap (bind s))
                                   (if truthy (args s ''profile'') then args s ''profile''
                                    else PStr ''default.yaml''),
                            out := out (bind s) @ [Profile (if truthy (args s ''profile'') then args s ''profile''
                                    else PStr ''default.yaml'')]\<rparr>))"
  by (simp add: resolve_def Let_def profile_argument_eq)

subsection \<open>The binder, field by field\<close>

lemma bound_option_eq:
  "bound_option = map_of
    [((Interpreter, ''custom_instructions''), ''custom_instructions''),
     ((Interpreter, ''system_message''), ''system_message''),
     ((Interpreter, ''auto_run''), ''auto_run''),
     ((Interpreter, ''verbose''), ''verbose''),
     ((Llm, ''model''), ''model''),
     ((Llm, ''temperature''), ''temperature''),
     ((Llm, ''supports_vision''), ''llm_supports_vision''),
     ((Llm, ''supports_functions''), ''llm_supports_functions''),
     ((Llm, ''context_window''), ''context_window''),
     ((Llm, ''max_tokens''), ''max_tokens''),
     ((Llm, ''max_budget''), ''max_budget''),
     ((Llm, ''api_base''), ''api_base''),
     ((Llm, ''api_key''), ''api_key''),
     ((Llm, ''api_version''), ''api_version''),
     ((Interpreter, ''max_output''), ''max_output''),
     ((Interpreter, ''force_task_completion''), ''force_task_completion''),
     ((Interpreter, ''disable_telemetry''), ''disable_telemetry''),
     ((Interpreter, ''offline''), ''offline''),
     ((Interpreter, ''speak_messages''), ''speak_messages''),
     ((Interpreter, ''safe_mode''), ''safe_mode''),
     ((Interpreter, ''debug''), ''debug''),
     ((Interpreter, ''multi_line''), ''multi_line'')]"
  by (simp add: bound_option_def arguments_def opt_def)

lemma get_argument_dictionary_mem:
  assumes "d \<in> set sch" "distinct (map arg_name sch)"
  shows "get_argument_dictionary sch (arg_name d) = Some d"
  using assms
proof (induction sch)
  case Nil
  then show ?case by simp
next
  case (Cons x sch)
  show ?case
  proof (cases "x = d")
    case True
    then show ?thesis by (simp add: get_argument_dictionary_def)
  next
    case False
    with Cons.prems have d: "d \<in> set sch" and nx: "arg_name x \<noteq> arg_name d" and dist: "distinct (map arg_name sch)"
      by auto
    from Cons.IH [OF d dist] nx show ?thesis
      by (simp add: get_argument_dictionary_def)
  qed
qed

lemma bound_option_SomeD:
  assumes "bound_option t = Some k"
  shows "binding k = Some t"
proof -
  from assms have "(t, k) \<in> set (concat (map (\<lambda>d. case attribute d of Some t \<Rightarrow> [(t, arg_name d)] | None \<Rightarrow> []) arguments))"
    unfolding bound_option_def by (rule map_of_SomeD)
  then obtain d where d: "d \<in> set arguments" "attribute d = Some t" "arg_name d = k"
    by (auto split: option.splits)
  with get_argument_dictionary_mem [OF d(1) names_distinct] show ?thesis
    by (simp add: binding_def)
qed

lemma binding_bound_option:
  "binding k = Some t \<longleftrightarrow> bound_option t = Some k"
proof
  assume b: "binding k = Some t"
  show "bound_option t = Some k"
  proof (cases "bound_option t")
    case None
    from b obtain d where d: "d \<in> set arguments" "arg_name d = k" "attribute d = Some t"
      by (auto simp: binding_def split: option.splits dest: get_argument_dictionary_SomeD)
    then have "(t, k) \<in> set (concat (map (\<lambda>d. case attribute d of Some t \<Rightarrow> [(t, arg_name d)] | None \<Rightarrow> []) arguments))"
      by (cases t) (auto intro!: bexI [of _ d])
    then have "t \<in> fst ` set (concat (map (\<lambda>d. case attribute d of Some t \<Rightarrow> [(t, arg_name d)] | None \<Rightarrow> []) arguments))"
      by force
    with None show ?thesis
      by (simp add: bound_option_def map_of_eq_None_iff)
  next
    case (Some k')
    then have "binding k' = Some t" by (rule bound_option_SomeD)
    with b have "k = k'" by (rule binding_inj)
    with Some show ?thesis by simp
  qed
next
  assume "bound_option t = Some k"
  then show "binding k = Some t" by (rule bound_option_SomeD)
qed

lemma bind_heap_eq:
  "heap (bind s) t =
     (case bound_option t of
        Some k \<Rightarrow> (if args s k = PNone then heap s t else args s k)
      | None \<Rightarrow> heap s t)"
proof (cases "bound_option t")
  case None
  then have "\<And>k. binding k = Some t \<Longrightarrow> args s k = PNone"
    by (simp add: binding_bound_option)
  then show ?thesis using None
    by (simp add: bind_heap set_attributes_miss)
next
  case (Some k)
  then have b: "binding k = Some t" by (simp add: binding_bound_option)
  show ?thesis
  proof (cases "args s k = PNone")
    case True
    have "\<And>k'. binding k' = Some t \<Longrightarrow> args s k' = PNone"
      using True b binding_inj by blast
    then show ?thesis using Some True
      by (simp add: bind_heap set_attributes_miss)
  next
    case False
    with b Some show ?thesis
      by (simp add: bind_heap set_attributes_hit)
  qed
qed

lemma set_attribute_out_quiet:
  "\<not> truthy (a ''verbose'') \<Longrightarrow> snd (set_attribute a sch item ho) = snd ho"
  by (cases item) (simp add: set_attribute_def split: option.splits prod.splits)

lemma fold_set_attribute_out_quiet:
  "\<not> truthy (a ''verbose'') \<Longrightarrow> snd (fold (set_attribute a sch) items ho) = snd ho"
  by (induction items arbitrary: ho) (simp_all add: set_attribute_out_quiet)

lemma bind_out_quiet:
  "\<not> truthy (args s ''verbose'') \<Longrightarrow> out (bind s) = out s"
  using fold_set_attribute_out_quiet [of "args s" arguments "vars (args s)" "(heap s, out s)"]
  by (auto simp add: bind_def set_attributes_def split: prod.splits)

lemma parse_defaults_eq:
  "parse_defaults =
     (\<lambda>_. PNone)(''profile'' := PStr ''default.yaml'', ''disable_telemetry'' := PBool False,
                  ''safe_mode'' := PStr ''off'', ''reset_profile'' := PStr ''NOT_PROVIDED'')"
  by (rule ext) (simp add: parse_defaults_def get_argument_dictionary_def arguments_def opt_def)

section \<open>After the binding\<close>

lemma startswith_iff: "startswith s p \<longleftrightarrow> (\<exists>r. s = p @ r)"
  by (induction s p rule: startswith.induct) auto

lemma fill_defaults_apply:
  "fill_defaults cw mt sf h f =
     (if f = (Llm, ''supports_functions'') \<and> h f = PNone then PBool sf
      else if f = (Llm, ''max_tokens'') \<and> h f = PNone then PInt mt
      else if f = (Llm, ''context_window'') \<and> h f = PNone then PInt cw
      else h f)"
  by (auto simp: fill_defaults_def set_if_none_def)

lemma infer_model_defaults_keeps:
  assumes "infer_model_defaults h = Inr h'"
  shows "h field \<noteq> PNone \<Longrightarrow> h' field = h field"
    and "field \<notin> {(Llm, ''context_window''), (Llm, ''max_tokens''), (Llm, ''supports_functions'')}
         \<Longrightarrow> h' field = h field"
  using assms
  by (auto simp: infer_model_defaults_def Let_def fill_defaults_apply split: pyval.splits if_splits)

lemma infer_model_defaults_string:
  "infer_model_defaults h = Inr h' \<Longrightarrow> \<exists>model. h (Llm, ''model'') = PStr model"
  by (auto simp: infer_model_defaults_def split: pyval.splits)

lemma update_check_frame [simp]:
  "heap (update_check e s) = heap s" "args (update_check e s) = args s"
  by (simp_all add: update_check_def)

lemma launch_heap:
  "t \<noteq> (Interpreter, ''in_terminal_interface'') \<Longrightarrow> heap (launch s) t = heap s t"
  by (simp add: launch_def emit_def)

lemma api_base_rewrite_other:
  "api_base_rewrite h = Inr h' \<Longrightarrow> t \<noteq> (Llm, ''model'') \<Longrightarrow> h' t = h t"
  by (auto simp: api_base_rewrite_def split: if_splits pyval.splits)

lemma resolve_no_error [simp]: "fst (resolve e s) = None"
  by (simp add: resolve_eq)

lemma configure_and_launch_Returned:
  assumes "configure_and_launch e s = (Returned, s')"
  shows "\<exists>h2 h3.
           infer_model_defaults
             (heap (snd (resolve e (mode_expander e (s\<lparr>heap := safe_mode_disables_auto_run (heap s)\<rparr>))))) = Inr h2
           \<and> api_base_rewrite h2 = Inr h3
           \<and> (\<forall>t. t \<noteq> (Interpreter, ''in_terminal_interface'') \<longrightarrow> heap s' t = h3 t)"
proof -
  let ?r = "resolve e (mode_expander e (s\<lparr>heap := safe_mode_disables_auto_run (heap s)\<rparr>))"
  have r: "?r = (None, snd ?r)"
    using resolve_no_error [of e "mode_expander e (s\<lparr>heap := safe_mode_disables_auto_run (heap s)\<rparr>)"]
    by (metis prod.collapse)
  from assms obtain h2 where h2: "infer_model_defaults (heap (snd ?r)) = Inr h2"
    unfolding configure_and_launch_def by (subst (asm) r) (auto split: sum.splits)
  from assms h2 obtain h3 where h3: "api_base_rewrite h2 = Inr h3"
    and s': "s' = launch ((update_check e ((snd ?r)\<lparr>heap := h2\<rparr>))\<lparr>heap := h3\<rparr>)"
    unfolding configure_and_launch_def by (subst (asm) r) (auto simp: Let_def split: sum.splits)
  from h2 h3 s' show ?thesis by (auto simp: launch_heap)
qed

lemma bound_option_not_terminal_flag:
  "bound_option t = Some k \<Longrightarrow> t \<noteq> (Interpreter, ''in_terminal_interface'')"
  by (auto simp: bound_option_eq)

section \<open>Concrete runs\<close>

lemmas example_collaborators [simp] = no_profile_def example_profile_def pip_fails_def pip_installs_def

lemma example_env_simps [simp]:
  "parse_known_args (example_env a unknown prof answer shell) argv = Parsed a unknown"
  "profile (example_env a unknown prof answer shell) = prof"
  "input (example_env a unknown prof answer shell) prompt = answer"
  "computer_run (example_env a unknown prof answer shell) kind code w = (if kind = ''shell'' then shell code w else w)"
  "check_for_update (example_env a unknown prof answer shell) = Some False"
  "version (example_env a unknown prof answer shell) = ''0.2.0''"
  by (simp_all add: example_env_def)

lemma mode_expander_no_mode:
  assumes "\<not> truthy (args s ''fast'')" "\<not> truthy (args s ''vision'')" "\<not> truthy (args s ''os'')"
    "\<not> truthy (args s ''local'')"
  shows "mode_expander e s = s"
  using assms by (simp add: mode_expander_def)

lemma configure_and_launch_eval:
  "configure_and_launch e s =
     (let s1 = snd (resolve e (mode_expander e (s\<lparr>heap := safe_mode_disables_auto_run (heap s)\<rparr>))) in
      case infer_model_defaults (heap s1) of
        Inl err \<Rightarrow> (Raised err, s1)
      | Inr h2 \<Rightarrow>
          (let s2 = update_check e (s1\<lparr>heap := h2\<rparr>) in
           case api_base_rewrite (heap s2) of
             Inl err \<Rightarrow> (Raised err, s2)
           | Inr h3 \<Rightarrow> (Returned, launch (s2\<lparr>heap := h3\<rparr>))))"
proof -
  have r: "resolve e (mode_expander e (s\<lparr>heap := safe_mode_disables_auto_run (heap s)\<rparr>)) =
        (None, snd (resolve e (mode_expander e (s\<lparr>heap := safe_mode_disables_auto_run (heap s)\<rparr>))))"
    by (metis resolve_no_error prod.collapse)
  show ?thesis
    unfolding configure_and_launch_def by (subst r) (simp add: Let_def)
qed

section \<open>Calls to the profile loader and the resolved heap\<close>

lemma profile_calls_append [simp]:
  "profile_calls (xs @ ys) = profile_calls xs @ profile_calls ys"
  by (induction xs rule: profile_calls.induct) simp_all

lemma set_attribute_profile_calls:
  "profile_calls (snd (set_attribute a sch item ho)) = profile_calls (snd ho)"
  by (cases item) (simp add: set_attribute_def split: option.splits prod.splits)

lemma fold_set_attribute_profile_calls:
  "profile_calls (snd (fold (set_attribute a sch) items ho)) = profile_calls (snd ho)"
  by (induction items arbitrary: ho) (simp_all add: set_attribute_profile_calls)

lemma bind_profile_calls [simp]:
  "profile_calls (out (bind s)) = profile_calls (out s)"
  using fold_set_attribute_profile_calls [of "args s" arguments "vars (args s)" "(heap s, out s)"]
  by (auto simp add: bind_def set_attributes_def split: prod.splits)

lemma pip_install_profile_calls [simp]:
  "profile_calls (out (pip_install e pips missing s)) = profile_calls (out s)"
  by (induction pips arbitrary: s) (simp_all add: Let_def)

lemma os_packages_profile_calls [simp]:
  "profile_calls (out (os_packages e s)) = profile_calls (out s)"
  by (simp add: os_packages_def Let_def install_manually_def)

lemma os_banners_profile_calls [simp]:
  "profile_calls (out (os_banners e s)) = profile_calls (out s)"
  by (simp add: os_banners_def Let_def)

lemma os_settings_out [simp]: "out (os_settings s) = out s"
  by (simp add: os_settings_def Let_def)

lemma mode_expander_profile_calls [simp]:
  "profile_calls (out (mode_expander e s)) = profile_calls (out s)"
  by (simp add: mode_expander_def Let_def)

lemma update_check_profile_calls [simp]:
  "profile_calls (out (update_check e s)) = profile_calls (out s)"
  by (simp add: update_check_def)

lemma launch_profile_calls [simp]:
  "profile_calls (out (launch s)) = profile_calls (out s)"
  by (simp add: launch_def)

lemma configure_and_launch_profile_calls:
  "profile_calls (out (snd (configure_and_launch e s))) =
     profile_calls (out s)
     @ [if truthy (args (mode_expander e (s\<lparr>heap := safe_mode_disables_auto_run (heap s)\<rparr>)) ''profile'')
        then args (mode_expander e (s\<lparr>heap := safe_mode_disables_auto_run (heap s)\<rparr>)) ''profile''
        else PStr ''default.yaml'']"
  by (simp add: configure_and_launch_eval Let_def resolve_eq split: sum.splits)

lemma resolve_out:
  "out (snd (resolve e s)) =
     out (bind ((bind s)\<lparr>heap := profile e (heap (bind s))
                                   (if truthy (args s ''profile'') then args s ''profile''
                                    else PStr ''default.yaml''),
                            out := out (bind s) @ [Profile (if truthy (args s ''profile'') then args s ''profile''
                                    else PStr ''default.yaml'')]\<rparr>))"
  by (simp add: resolve_eq)

lemma binding_of_dictionary:
  "get_argument_dictionary arguments key = Some d \<Longrightarrow> attribute d = Some target
     \<Longrightarrow> bound_option target = Some key"
  by (simp add: binding_bound_option [symmetric] binding_def)

lemma bound_option_not_profile:
  "bound_option target = Some key \<Longrightarrow> key \<noteq> ''profile''"
  by (auto simp: bound_option_eq split: if_splits)

lemma resolve_heap:
  "heap (snd (resolve e s)) target =
     (case bound_option target of
        Some key \<Rightarrow>
          (if args s key = PNone
           then profile e (heap (bind s))
                  (if truthy (args s ''profile'') then args s ''profile'' else PStr ''default.yaml'') target
           else args s key)
      | None \<Rightarrow>
          profile e (heap (bind s))
            (if truthy (args s ''profile'') then args s ''profile'' else PStr ''default.yaml'') target)"
  by (simp add: resolve_eq bind_heap_eq split: option.splits)

lemma get_argument_dictionary_examples:
  "get_argument_dictionary arguments ''context_window''
     = Some (opt ''context_window'' (Some ''cw'') TInt (Some (Llm, ''context_window'')))"
  "get_argument_dictionary arguments ''model'' = Some (opt ''model'' (Some ''m'') TStr (Some (Llm, ''model'')))"
  by (simp_all add: get_argument_dictionary_def arguments_def opt_def)

lemma attribute_opt [simp]: "attribute (opt n nick ty attr) = attr"
  by (simp add: opt_def)

section \<open>The heap at the end of the function\<close>

text \<open>
  After the second binder pass only the model default inferencer, the rewrite of the
  model name and the terminal flag write to the two objects, so every other field is at
  the end what it was after the second pass, however the function ends.
\<close>

lemma mode_expander_heap_no_os:
  "\<not> truthy (args s ''os'') \<Longrightarrow> heap (mode_expander e s) = heap s"
  by (simp add: mode_expander_def Let_def)

lemma configure_and_launch_heap_other:
  assumes "t \<notin> {(Llm, ''context_window''), (Llm, ''max_tokens''), (Llm, ''supports_functions''),
                (Llm, ''model''), (Interpreter, ''in_terminal_interface'')}"
  shows "heap (snd (configure_and_launch e s)) t
           = heap (snd (resolve e (mode_expander e (s\<lparr>heap := safe_mode_disables_auto_run (heap s)\<rparr>)))) t"
proof -
  let ?s1 = "snd (resolve e (mode_expander e (s\<lparr>heap := safe_mode_disables_auto_run (heap s)\<rparr>)))"
  show ?thesis
  proof (cases "infer_model_defaults (heap ?s1)")
    case (Inl err)
    then show ?thesis by (simp add: configure_and_launch_eval)
  next
    case (Inr h2)
    from infer_model_defaults_keeps(2) [OF Inr, of t] assms have k: "h2 t = heap ?s1 t" by simp
    show ?thesis
    proof (cases "api_base_rewrite h2")
      case (Inl err)
      with Inr k show ?thesis by (simp add: configure_and_launch_eval)
    next
      case h3: (Inr h3)
      from api_base_rewrite_other [OF h3, of t] assms have "h3 t = h2 t" by simp
      with Inr h3 k assms show ?thesis by (simp add: configure_and_launch_eval launch_heap)
    qed
  qed
qed

lemma configure_and_launch_unbound:
  assumes "bound_option t = None" and "t \<noteq> (Interpreter, ''in_terminal_interface'')"
  shows "heap (snd (configure_and_launch e s)) t
           = profile e
               (heap (bind (mode_expander e (s\<lparr>heap := safe_mode_disables_auto_run (heap s)\<rparr>))))
               (if truthy (args (mode_expander e (s\<lparr>heap := safe_mode_disables_auto_run (heap s)\<rparr>)) ''profile'')
                then args (mode_expander e (s\<lparr>heap := safe_mode_disables_auto_run (heap s)\<rparr>)) ''profile''
                else PStr ''default.yaml'') t"
proof -
  have "t \<notin> {(Llm, ''context_window''), (Llm, ''max_tokens''), (Llm, ''supports_functions''),
                (Llm, ''model''), (Interpreter, ''in_terminal_interface'')}"
    using assms by (auto simp: bound_option_eq)
  then show ?thesis
    using assms(1) by (simp add: configure_and_launch_heap_other resolve_heap)
qed

text \<open>
  An option without a default in the schema and absent from the command line has the
  value \<^verbatim>\<open>None\<close> in the namespace and is never written by the binder: after the second
  pass its field holds what the profile loader left there. Under \<^verbatim>\<open>--os\<close> without a model
  name the mode expander has put \<^verbatim>\<open>gpt-4-vision-preview\<close> into the namespace, which both
  passes write.
\<close>

lemma absent_options_keep_profile_values:
  assumes "get_argument_dictionary arguments key = Some d" and "attribute d = Some target"
    and "args s key = PNone"
    and "key = ''model'' \<longrightarrow> \<not> truthy (args s ''os'')"
  shows "(\<exists>p. profile_calls
                (out (snd (resolve e (mode_expander e (s\<lparr>heap := safe_mode_disables_auto_run (heap s)\<rparr>)))))
              = profile_calls (out s) @ [p]
            \<and> heap (snd (resolve e (mode_expander e (s\<lparr>heap := safe_mode_disables_auto_run (heap s)\<rparr>))))
                target
              = profile e
                  (heap (bind (mode_expander e (s\<lparr>heap := safe_mode_disables_auto_run (heap s)\<rparr>))))
                  p target)
     \<and> (truthy (args s ''os'') \<and> \<not> truthy (args s ''model'')
          \<longrightarrow> heap (snd (resolve e (mode_expander e (s\<lparr>heap := safe_mode_disables_auto_run (heap s)\<rparr>))))
                (Llm, ''model'') = PStr ''gpt-4-vision-preview'')"
proof -
  let ?S = "mode_expander e (s\<lparr>heap := safe_mode_disables_auto_run (heap s)\<rparr>)"
  let ?p = "if truthy (args ?S ''profile'') then args ?S ''profile'' else PStr ''default.yaml''"
  from assms(1,2) have b: "bound_option target = Some key" by (rule binding_of_dictionary)
  then have np: "key \<noteq> ''profile''" by (rule bound_option_not_profile)
  have a: "args ?S key = PNone"
  proof (cases "key = ''model''")
    case True
    with assms(3,4) show ?thesis by (auto simp add: mode_expander_args_model)
  next
    case False
    with np assms(3) show ?thesis by (simp add: mode_expander_args_other)
  qed
  have p: "profile_calls (out (snd (resolve e ?S))) = profile_calls (out s) @ [?p]"
    by (simp add: resolve_out)
  from a b have "heap (snd (resolve e ?S)) target = profile e (heap (bind ?S)) ?p target"
    by (simp add: resolve_heap)
  with p have 1: "\<exists>p. profile_calls (out (snd (resolve e ?S))) = profile_calls (out s) @ [p]
            \<and> heap (snd (resolve e ?S)) target = profile e (heap (bind ?S)) p target"
    by blast
  have 2: "truthy (args s ''os'') \<and> \<not> truthy (args s ''model'')
          \<longrightarrow> heap (snd (resolve e ?S)) (Llm, ''model'') = PStr ''gpt-4-vision-preview''"
    by (simp add: resolve_heap bound_option_eq mode_expander_args_model)
  from 1 2 show ?thesis by blast
qed

section \<open>The system message of OS mode\<close>

text \<open>
  The literal is a padded list of lines, so stripping it gives the lines joined by
  newlines. The text removed when offline is one whole line with its newline; since no
  line contains a newline, an occurrence of it can only end at the end of a line, and
  the replacement works line by line.
\<close>

lemma strip_padded:
  assumes "\<forall>c \<in> set lead. isspace c" and "\<forall>c \<in> set trail. isspace c"
    and "body \<noteq> []" and "\<not> isspace (hd body)" and "\<not> isspace (last body)"
  shows "strip (lead @ body @ trail) = body"
proof -
  obtain b bs where b: "body = b # bs" using assms(3) by (cases body) auto
  have "dropWhile isspace (lead @ body @ trail) = body @ trail"
    using assms(1,4) by (simp add: b)
  moreover have "dropWhile isspace (rev (body @ trail)) = rev body"
  proof -
    have "rev body \<noteq> []" "hd (rev body) = last body" using assms(3) by (simp_all add: hd_rev)
    then have "dropWhile isspace (rev body) = rev body"
      using assms(5) by (simp add: dropWhile_eq_self_iff)
    moreover have "dropWhile isspace (rev trail @ rev body) = dropWhile isspace (rev body)"
      using assms(2) by (intro dropWhile_append2) simp
    ultimately show ?thesis by simp
  qed
  ultimately show ?thesis by (simp add: strip_def)
qed

lemma unlines_Cons: "unlines (l # ls) = l @ CHR 0x0A # unlines ls"
  by (simp add: unlines_def)

lemma join_append_lines:
  "ys \<noteq> [] \<Longrightarrow> join ''\<newline>'' (xs @ ys) = unlines xs @ join ''\<newline>'' ys"
proof (induction xs)
  case Nil
  then show ?case by (simp add: unlines_def)
next
  case (Cons x xs)
  then obtain z zs where "xs @ ys = z # zs" by (cases "xs @ ys") auto
  with Cons show ?case by (simp add: unlines_Cons)
qed

lemma unlines_join: "ls \<noteq> [] \<Longrightarrow> unlines ls = join ''\<newline>'' ls @ ''\<newline>''"
  by (induction "''\<newline>''" ls rule: join.induct) (simp_all add: unlines_def)

lemma hd_join: "x \<noteq> [] \<Longrightarrow> hd (join sep (x # xs)) = hd x"
  by (cases xs) simp_all

lemma join_Nil_iff: "join sep ls = [] \<longleftrightarrow> (\<forall>l \<in> set ls. l = []) \<and> (sep = [] \<or> length ls \<le> 1)"
  by (induction sep ls rule: join.induct) auto

lemma join_not_Nil: "ls \<noteq> [] \<Longrightarrow> last ls \<noteq> [] \<Longrightarrow> join sep ls \<noteq> []"
  using last_in_set [of ls] by (auto simp: join_Nil_iff)

lemma last_join: "ls \<noteq> [] \<Longrightarrow> last ls \<noteq> [] \<Longrightarrow> last (join sep ls) = last (last ls)"
proof (induction sep ls rule: join.induct)
  case (1 sep)
  then show ?case by simp
next
  case (2 sep x)
  then show ?case by simp
next
  case (3 sep x y ys)
  then have l: "last (y # ys) \<noteq> []" by simp
  then have "join sep (y # ys) \<noteq> []" by (intro join_not_Nil) simp_all
  with 3 l show ?case by simp
qed

lemma startswith_line:
  "nl \<notin> set l \<Longrightarrow> nl \<notin> set b \<Longrightarrow> startswith (l @ nl # rest) (b @ [nl]) \<longleftrightarrow> b = l"
proof (induction l arbitrary: b)
  case Nil
  then show ?case by (cases b) auto
next
  case (Cons c l)
  then show ?case by (cases b) auto
qed

lemma replace_all_skip_line:
  assumes "nl \<notin> set b" and "nl \<notin> set l" and "\<not> suffix b l"
  shows "replace_all (b @ [nl]) new (l @ nl # rest) = l @ nl # replace_all (b @ [nl]) new rest"
  using assms(2,3)
proof (induction l)
  case Nil
  then have "b \<noteq> []" by auto
  with assms(1) have "\<not> startswith ([] @ nl # rest) (b @ [nl])"
    by (subst startswith_line) auto
  then show ?case by simp
next
  case (Cons c l)
  from Cons.prems have "b \<noteq> c # l" by auto
  with Cons.prems assms(1) have "\<not> startswith ((c # l) @ nl # rest) (b @ [nl])"
    by (subst startswith_line) auto
  moreover from Cons.prems have "nl \<notin> set l" "\<not> suffix b l"
    by (auto simp: suffix_Cons)
  ultimately show ?case using Cons.IH by simp
qed

lemma replace_all_hit_line:
  "replace_all (b @ [nl]) new (b @ nl # rest) = new @ replace_all (b @ [nl]) new rest"
proof -
  obtain c cs where c: "b @ nl # rest = c # cs" by (cases b) auto
  have "startswith (b @ nl # rest) (b @ [nl])" by (simp add: startswith_iff)
  then have "replace_all (b @ [nl]) new (c # cs)
               = new @ replace_all (b @ [nl]) new (drop (length (b @ [nl])) (c # cs))"
    unfolding c by simp
  then show ?thesis unfolding c [symmetric] by simp
qed

lemma replace_all_absent_char:
  "x \<in> set old \<Longrightarrow> x \<notin> set s \<Longrightarrow> replace_all old new s = s"
proof (induction s)
  case Nil
  then show ?case by simp
next
  case (Cons c s)
  have "\<not> startswith (c # s) old"
  proof
    assume "startswith (c # s) old"
    then obtain r where "c # s = old @ r" by (auto simp: startswith_iff)
    then have "set old \<subseteq> set (c # s)" by (metis set_append Un_upper1)
    with Cons.prems show False by auto
  qed
  with Cons show ?case by simp
qed

lemma replace_all_unlines:
  assumes "nl = CHR 0x0A" and "nl \<notin> set b" and "\<forall>l \<in> set ls. nl \<notin> set l \<and> \<not> suffix b l"
  shows "replace_all (b @ [nl]) new (unlines ls @ rest) = unlines ls @ replace_all (b @ [nl]) new rest"
  using assms(3)
proof (induction ls)
  case Nil
  then show ?case by (simp add: unlines_def)
next
  case (Cons l ls)
  then show ?case
    using assms(1,2) by (simp add: unlines_Cons replace_all_skip_line)
qed

lemma replace_all_join:
  assumes "nl = CHR 0x0A" and "nl \<notin> set b" and "\<forall>l \<in> set ls. nl \<notin> set l \<and> \<not> suffix b l"
  shows "replace_all (b @ [nl]) new (join ''\<newline>'' ls) = join ''\<newline>'' ls"
proof (cases "ls = []")
  case True
  then show ?thesis by simp
next
  case False
  then have j: "join ''\<newline>'' ls = unlines (butlast ls) @ last ls"
    using join_append_lines [of "[last ls]" "butlast ls"] by simp
  have "\<forall>l \<in> set (butlast ls). nl \<notin> set l \<and> \<not> suffix b l"
    using assms(3) by (auto dest: in_set_butlastD)
  moreover have "nl \<notin> set (last ls)" using assms(3) False by simp
  then have "replace_all (b @ [nl]) new (last ls) = last ls"
    by (intro replace_all_absent_char [of nl]) simp_all
  ultimately show ?thesis
    unfolding j using assms(1,2)
    by (simp add: replace_all_unlines)
qed

lemma replace_all_remove_line:
  assumes "nl = CHR 0x0A" and "nl \<notin> set b"
    and "\<forall>l \<in> set before. nl \<notin> set l \<and> \<not> suffix b l"
    and "\<forall>l \<in> set after. nl \<notin> set l \<and> \<not> suffix b l"
    and "after \<noteq> []"
  shows "replace_all (b @ [nl]) [] (join ''\<newline>'' (before @ [b] @ after)) = join ''\<newline>'' (before @ after)"
proof -
  have "join ''\<newline>'' (before @ [b] @ after) = unlines before @ b @ nl # join ''\<newline>'' after"
    using assms(1,5) join_append_lines [of "[b] @ after" before] join_append_lines [of after "[b]"]
    by (simp add: unlines_def)
  then show ?thesis
    using assms by (simp add: replace_all_unlines replace_all_hit_line replace_all_join join_append_lines)
qed

lemma not_suffix_by_length_or_last:
  "b \<noteq> [] \<Longrightarrow> length l < length b \<or> last l \<noteq> last b \<Longrightarrow> \<not> suffix b l"
  by (auto simp: suffix_def)

lemma icon_line_eq: "icon_line = os_message_icon @ ''\<newline>''"
  by (simp add: icon_line_def os_message_icon_def)

lemma os_message_icon_props:
  "os_message_icon \<noteq> []" "CHR 0x0A \<notin> set os_message_icon" "length os_message_icon = 131"
  "last os_message_icon = CHR ''n''"
  by (simp_all add: os_message_icon_def)

lemma os_message_before_lines:
  "\<forall>l \<in> set os_message_before. CHR 0x0A \<notin> set l \<and> (length l < 131 \<or> last l \<noteq> CHR ''n'')"
  by (simp add: os_message_before_def)

lemma os_message_after_lines:
  "\<forall>l \<in> set os_message_after. CHR 0x0A \<notin> set l \<and> (length l < 131 \<or> last l \<noteq> CHR ''n'')"
  by (simp add: os_message_after_def)

lemma os_message_ends:
  "os_message_before \<noteq> []" "hd os_message_before \<noteq> []" "\<not> isspace (hd (hd os_message_before))"
  "os_message_after \<noteq> []" "last os_message_after \<noteq> []" "\<not> isspace (last (last os_message_after))"
  by (simp_all add: os_message_before_def os_message_after_def isspace_def)

lemma os_system_message_eq:
  "os_system_message = join ''\<newline>'' (os_message_before @ [os_message_icon] @ os_message_after)"
proof -
  let ?ls = "os_message_before @ [os_message_icon] @ os_message_after"
  let ?body = "join ''\<newline>'' ?ls"
  have l: "os_system_message_literal
             = (''\<newline>'' @ ''        \<newline>'') @ ?body @ (''\<newline>'' @ ''        \<newline>'' @ ''        '')"
    unfolding os_system_message_literal_def by (subst unlines_join) simp_all
  have ls: "?ls = hd os_message_before # (tl os_message_before @ [os_message_icon] @ os_message_after)"
    using os_message_ends(1) by simp
  have h: "hd ?body = hd (hd os_message_before)"
    by (subst ls) (simp only: hd_join [OF os_message_ends(2)])
  have la: "last ?ls = last os_message_after" using os_message_ends(4) by simp
  have b: "?body \<noteq> []" "last ?body = last (last os_message_after)"
    using os_message_ends(5) la by (simp_all add: join_not_Nil last_join)
  show ?thesis
    unfolding os_system_message_def l
    by (rule strip_padded) (use h b os_message_ends in \<open>simp_all add: isspace_def\<close>)
qed

lemma os_system_message_not_empty: "os_system_message \<noteq> []"
  unfolding os_system_message_eq using os_message_ends(4,5)
  by (intro join_not_Nil) simp_all

lemma os_system_message_offline:
  "replace icon_line [] os_system_message = join ''\<newline>'' (os_message_before @ os_message_after)"
proof -
  have n: "\<not> suffix os_message_icon l" if "length l < 131 \<or> last l \<noteq> CHR ''n''" for l
    using that not_suffix_by_length_or_last [of os_message_icon l] os_message_icon_props by simp
  have c: "\<forall>l \<in> set os_message_before. CHR 0x0A \<notin> set l \<and> \<not> suffix os_message_icon l"
    "\<forall>l \<in> set os_message_after. CHR 0x0A \<notin> set l \<and> \<not> suffix os_message_icon l"
    using os_message_before_lines os_message_after_lines n by blast+
  have "replace_all (os_message_icon @ [CHR 0x0A]) [] os_system_message
          = join ''\<newline>'' (os_message_before @ os_message_after)"
    unfolding os_system_message_eq
    using os_message_icon_props(2) c os_message_ends(4)
    by (intro replace_all_remove_line) simp_all
  then show ?thesis by (simp add: replace_def icon_line_eq)
qed

lemma os_message_icon_once:
  "os_message_icon \<notin> set (os_message_before @ os_message_after)"
  using os_message_before_lines os_message_after_lines os_message_icon_props(3,4) by auto

lemma os_settings_heap:
  "heap (os_settings s) =
     (heap s)((Interpreter, ''os'') := PBool True,
              (Llm, ''supports_vision'') := PBool True,
              (Llm, ''supports_functions'') := PBool False,
              (Llm, ''context_window'') := PInt 110000,
              (Llm, ''max_tokens'') := PInt 4096,
              (Interpreter, ''auto_run'') := PBool True,
              (Interpreter, ''force_task_completion'') := PBool True,
              (Interpreter, ''system_message'') :=
                 PStr (if truthy (args s ''offline'')
                       then join ''\<newline>'' (os_message_before @ os_message_after)
                       else join ''\<newline>'' (os_message_before @ [os_message_icon] @ os_message_after)))"
  by (simp add: os_settings_def Let_def os_system_message_offline)
     (simp add: os_system_message_eq)

lemma mode_expander_heap_os:
  "truthy (args s ''os'') \<Longrightarrow> heap (mode_expander e s) = heap (os_settings s)"
  by (simp add: mode_expander_def Let_def os_settings_heap)

section \<open>The claims\<close>

subsection \<open>C1\<close>

text \<open>
  Claim C1, as stated, fails: under \<^verbatim>\<open>--os\<close> line 341 tests \<^verbatim>\<open>not args.model\<close>, which also
  holds for a model name that is supplied but empty. With \<^verbatim>\<open>--os --model ""\<close> and every
  package importable, the value supplied for the bound option \<^verbatim>\<open>model\<close> is the empty string
  and \<^verbatim>\<open>interpreter.llm.model\<close> is \<^verbatim>\<open>gpt-4-vision-preview\<close> after the second binder pass.
\<close>

theorem empty_model_under_os_is_replaced:
  "map_option attribute (get_argument_dictionary arguments ''model'') = Some (Some (Llm, ''model''))
   \<and> (parse_defaults(''os'' := PBool True, ''model'' := PStr [])) ''model'' = PStr []
   \<and> heap (snd (resolve
        (example_env (parse_defaults(''os'' := PBool True, ''model'' := PStr [])) [] no_profile ''n''
           pip_fails)
        (mode_expander
           (example_env (parse_defaults(''os'' := PBool True, ''model'' := PStr [])) [] no_profile ''n''
              pip_fails)
           \<lparr>heap = safe_mode_disables_auto_run example_heap,
            args = parse_defaults(''os'' := PBool True, ''model'' := PStr []),
            out = [], world = packages\<rparr>))) (Llm, ''model'') = PStr ''gpt-4-vision-preview''"
  by (simp add: resolve_heap bound_option_eq mode_expander_args_model parse_defaults_eq
      get_argument_dictionary_def arguments_def opt_def)

text \<open>
  Claim C1, amended. For every namespace the parser delivers and every profile, an
  option that is bound to a field and whose value is not \<^verbatim>\<open>None\<close> (so every value supplied
  on the command line) is on its field after the second binder pass, unless it is a
  falsy model name under \<^verbatim>\<open>--os\<close>. When the function returns the value is still there,
  except that \<^verbatim>\<open>interpreter.llm.model\<close> may have been rewritten by lines 589--600 when
  \<^verbatim>\<open>api_base\<close> is set.
\<close>

theorem cli_values_win_over_profile:
  assumes "get_argument_dictionary arguments key = Some d" and "attribute d = Some target"
    and "args s key \<noteq> PNone"
    and "key = ''model'' \<and> truthy (args s ''os'') \<longrightarrow> truthy (args s ''model'')"
  shows "heap (snd (resolve e (mode_expander e (s\<lparr>heap := safe_mode_disables_auto_run (heap s)\<rparr>)))) target
           = args s key
     \<and> (\<forall>s'. configure_and_launch e s = (Returned, s') \<longrightarrow>
            target \<noteq> (Llm, ''model'') \<or> \<not> truthy (heap s' (Llm, ''api_base''))
            \<longrightarrow> heap s' target = args s key)"
proof -
  let ?S = "mode_expander e (s\<lparr>heap := safe_mode_disables_auto_run (heap s)\<rparr>)"
  from assms(1,2) have b: "bound_option target = Some key" by (rule binding_of_dictionary)
  then have np: "key \<noteq> ''profile''" by (rule bound_option_not_profile)
  have a: "args ?S key = args s key"
  proof (cases "key = ''model''")
    case True
    with assms(4) show ?thesis by (auto simp add: mode_expander_args_model)
  next
    case False
    with np show ?thesis by (simp add: mode_expander_args_other)
  qed
  with b assms(3) have r: "heap (snd (resolve e ?S)) target = args s key"
    by (simp add: resolve_heap)
  have f: "heap s' target = args s key"
    if c: "configure_and_launch e s = (Returned, s')"
      and m: "target \<noteq> (Llm, ''model'') \<or> \<not> truthy (heap s' (Llm, ''api_base''))" for s'
  proof -
    from configure_and_launch_Returned [OF c] obtain h2 h3 where
      h2: "infer_model_defaults (heap (snd (resolve e ?S))) = Inr h2"
      and h3: "api_base_rewrite h2 = Inr h3"
      and s': "\<forall>t. t \<noteq> (Interpreter, ''in_terminal_interface'') \<longrightarrow> heap s' t = h3 t"
      by blast
    have t: "target \<noteq> (Interpreter, ''in_terminal_interface'')"
      using b by (rule bound_option_not_terminal_flag)
    have k2: "h2 target = args s key"
      using infer_model_defaults_keeps(1) [OF h2, of target] r assms(3) by simp
    have "h3 target = h2 target"
    proof (cases "target = (Llm, ''model'')")
      case False
      with h3 show ?thesis by (rule api_base_rewrite_other)
    next
      case True
      with m have "\<not> truthy (heap s' (Llm, ''api_base''))" by simp
      with s' have "\<not> truthy (h3 (Llm, ''api_base''))" by simp
      with api_base_rewrite_other [OF h3, of "(Llm, ''api_base'')"]
      have "\<not> truthy (h2 (Llm, ''api_base''))" by simp
      with h3 show ?thesis by (simp add: api_base_rewrite_def)
    qed
    moreover from s' t have "heap s' target = h3 target" by blast
    ultimately show ?thesis using k2 by simp
  qed
  from r f show ?thesis by blast
qed

theorem cli_values_win_over_profile_witness:
  "get_argument_dictionary arguments ''context_window''
     = Some (opt ''context_window'' (Some ''cw'') TInt (Some (Llm, ''context_window'')))
   \<and> attribute (opt ''context_window'' (Some ''cw'') TInt (Some (Llm, ''context_window'')))
       = Some (Llm, ''context_window'')
   \<and> example_profile example_heap (PStr ''default.yaml'') (Llm, ''context_window'') = PInt 4000
   \<and> fst (configure_and_launch
        (example_env (parse_defaults(''context_window'' := PInt 8000)) [] example_profile ''n'' pip_fails)
        \<lparr>heap = example_heap, args = parse_defaults(''context_window'' := PInt 8000), out = [],
         world = []\<rparr>) = Returned
   \<and> heap (snd (configure_and_launch
        (example_env (parse_defaults(''context_window'' := PInt 8000)) [] example_profile ''n'' pip_fails)
        \<lparr>heap = example_heap, args = parse_defaults(''context_window'' := PInt 8000), out = [],
         world = []\<rparr>)) (Llm, ''context_window'') = PInt 8000
   \<and> heap (snd (resolve
        (example_env (parse_defaults(''os'' := PBool True, ''model'' := PStr ''gpt-4o'')) [] example_profile
           ''n'' pip_fails)
        (mode_expander
           (example_env (parse_defaults(''os'' := PBool True, ''model'' := PStr ''gpt-4o'')) []
              example_profile ''n'' pip_fails)
           \<lparr>heap = safe_mode_disables_auto_run example_heap,
            args = parse_defaults(''os'' := PBool True, ''model'' := PStr ''gpt-4o''), out = [],
            world = packages\<rparr>))) (Llm, ''model'') = PStr ''gpt-4o''"
proof -
  let ?a = "parse_defaults(''context_window'' := PInt 8000)"
  let ?e = "example_env ?a [] example_profile ''n'' pip_fails"
  let ?s = "\<lparr>heap = example_heap, args = ?a, out = [], world = []\<rparr>"
  let ?b = "parse_defaults(''os'' := PBool True, ''model'' := PStr ''gpt-4o'')"
  let ?f = "example_env ?b [] example_profile ''n'' pip_fails"
  let ?t = "\<lparr>heap = example_heap, args = ?b, out = [], world = packages\<rparr>"
  have a: "args ?s ''context_window'' \<noteq> PNone"
    "''context_window'' = ''model'' \<and> truthy (args ?s ''os'') \<longrightarrow> truthy (args ?s ''model'')"
    and b: "args ?t ''model'' \<noteq> PNone"
    "''model'' = ''model'' \<and> truthy (args ?t ''os'') \<longrightarrow> truthy (args ?t ''model'')"
    by simp_all
  have ret: "fst (configure_and_launch ?e ?s) = Returned"
    by (simp add: configure_and_launch_eval resolve_heap mode_expander_no_mode parse_defaults_eq
        bound_option_eq infer_model_defaults_def Let_def api_base_rewrite_def
        safe_mode_disables_auto_run_def example_heap_def bind_heap_eq)
  then have c: "configure_and_launch ?e ?s = (Returned, snd (configure_and_launch ?e ?s))"
    by (metis prod.collapse)
  from cli_values_win_over_profile
         [of "''context_window''" _ "(Llm, ''context_window'')" ?s ?e,
          OF get_argument_dictionary_examples(1) attribute_opt a]
  have 1: "heap (snd (configure_and_launch ?e ?s)) (Llm, ''context_window'') = PInt 8000"
    using c by auto
  from cli_values_win_over_profile
         [of "''model''" _ "(Llm, ''model'')" ?t ?f,
          OF get_argument_dictionary_examples(2) attribute_opt b]
  have 2: "heap (snd (resolve ?f (mode_expander ?f (?t\<lparr>heap := safe_mode_disables_auto_run example_heap\<rparr>))))
             (Llm, ''model'') = PStr ''gpt-4o''"
    by simp
  have 3: "example_profile example_heap (PStr ''default.yaml'') (Llm, ''context_window'') = PInt 4000"
    by simp
  from 1 2 3 ret get_argument_dictionary_examples(1) show ?thesis by simp
qed

subsection \<open>C2\<close>

text \<open>
  Claim C2. The binder skips a value that is \<^verbatim>\<open>None\<close> (line 620), and 20 of the 22 bound
  options have no default in the schema, so that an option absent from the command line
  is \<^verbatim>\<open>None\<close> and leaves the value of the profile alone, as the comment of line 538 says
  (the arguments passed in via the command line should override the profile). The options
  \<^verbatim>\<open>safe_mode\<close> and \<^verbatim>\<open>disable_telemetry\<close> have the defaults \<^verbatim>\<open>"off"\<close> and \<^verbatim>\<open>False\<close>, which are
  not \<^verbatim>\<open>None\<close>. In the run below the command line is empty and the profile sets safe mode
  \<^verbatim>\<open>ask\<close>, telemetry disabled and a context window of 4000: when the function returns,
  safe mode is \<^verbatim>\<open>off\<close> and telemetry is not disabled, while the context window, whose
  option has no default, is the one of the profile.
\<close>

theorem schema_defaults_override_profile:
  "parse_defaults ''safe_mode'' = PStr ''off''
   \<and> parse_defaults ''disable_telemetry'' = PBool False
   \<and> parse_defaults ''context_window'' = PNone
   \<and> example_profile example_heap (PStr ''default.yaml'') (Interpreter, ''safe_mode'') = PStr ''ask''
   \<and> example_profile example_heap (PStr ''default.yaml'') (Interpreter, ''disable_telemetry'') = PBool True
   \<and> example_profile example_heap (PStr ''default.yaml'') (Llm, ''context_window'') = PInt 4000
   \<and> fst (start_terminal_interface
        (example_env parse_defaults [] example_profile ''n'' pip_fails)
        [''interpreter''] example_heap []) = Returned
   \<and> profile_calls (out (snd (start_terminal_interface
        (example_env parse_defaults [] example_profile ''n'' pip_fails)
        [''interpreter''] example_heap []))) = [PStr ''default.yaml'']
   \<and> heap (snd (start_terminal_interface
        (example_env parse_defaults [] example_profile ''n'' pip_fails)
        [''interpreter''] example_heap [])) (Interpreter, ''safe_mode'') = PStr ''off''
   \<and> heap (snd (start_terminal_interface
        (example_env parse_defaults [] example_profile ''n'' pip_fails)
        [''interpreter''] example_heap [])) (Interpreter, ''disable_telemetry'') = PBool False
   \<and> heap (snd (start_terminal_interface
        (example_env parse_defaults [] example_profile ''n'' pip_fails)
        [''interpreter''] example_heap [])) (Llm, ''context_window'') = PInt 4000"
proof -
  let ?e = "example_env parse_defaults [] example_profile ''n'' pip_fails"
  let ?s = "\<lparr>heap = example_heap, args = parse_defaults, out = [], world = []\<rparr>"
  have s: "start_terminal_interface ?e [''interpreter''] example_heap [] = configure_and_launch ?e ?s"
    by (simp add: start_terminal_interface_def deprecated_flags_def special_commands_def parse_defaults_eq)
  have p: "parse_defaults ''safe_mode'' = PStr ''off''" "parse_defaults ''disable_telemetry'' = PBool False"
    "parse_defaults ''context_window'' = PNone"
    by (simp_all add: parse_defaults_eq)
  have q: "example_profile example_heap (PStr ''default.yaml'') (Interpreter, ''safe_mode'') = PStr ''ask''"
    "example_profile example_heap (PStr ''default.yaml'') (Interpreter, ''disable_telemetry'') = PBool True"
    "example_profile example_heap (PStr ''default.yaml'') (Llm, ''context_window'') = PInt 4000"
    by simp_all
  have r: "fst (configure_and_launch ?e ?s) = Returned"
    "heap (snd (configure_and_launch ?e ?s)) (Llm, ''context_window'') = PInt 4000"
    by (simp_all add: configure_and_launch_eval resolve_heap mode_expander_no_mode parse_defaults_eq
        bound_option_eq infer_model_defaults_def Let_def api_base_rewrite_def
        safe_mode_disables_auto_run_def example_heap_def bind_heap_eq launch_heap update_check_def)
  have d: "heap (snd (configure_and_launch ?e ?s)) (Interpreter, ''safe_mode'') = PStr ''off''"
    "heap (snd (configure_and_launch ?e ?s)) (Interpreter, ''disable_telemetry'') = PBool False"
    by (simp_all add: configure_and_launch_heap_other resolve_heap mode_expander_no_mode bound_option_eq
        parse_defaults_eq)
  have c: "profile_calls (out (snd (configure_and_launch ?e ?s))) = [PStr ''default.yaml'']"
    by (simp add: configure_and_launch_profile_calls mode_expander_no_mode parse_defaults_eq)
  from p q r c d show ?thesis
    unfolding s by (intro conjI)
qed

subsection \<open>C3\<close>

text \<open>
  Claim C3. The help text of \<^verbatim>\<open>--reset_profile\<close> (line 214) and the comment of line 315 say
  that the flag without a value resets all default profiles. With \<^verbatim>\<open>nargs="?"\<close> the parser
  delivers \<^verbatim>\<open>None\<close> for the bare flag, and the guard of line 312 requires a value that is
  not \<^verbatim>\<open>None\<close>. In the run of \<^verbatim>\<open>interpreter --reset_profile\<close> below no profile is reset and
  the call does not return early: the default profile is applied and the chat is started,
  exactly as in the run without the flag. With a profile name the reset function is called
  with that name and nothing else happens.
\<close>

theorem reset_profile_without_value_runs_chat:
  "fst (start_terminal_interface
          (example_env (parse_defaults(''reset_profile'' := PNone)) [] no_profile ''n'' pip_fails)
          [''interpreter'', ''--reset_profile''] example_heap []) = Returned
   \<and> out (snd (start_terminal_interface
          (example_env (parse_defaults(''reset_profile'' := PNone)) [] no_profile ''n'' pip_fails)
          [''interpreter'', ''--reset_profile''] example_heap []))
     = [Profile (PStr ''default.yaml''), Check_for_update, Validate_llm_settings, Chat]
   \<and> out (snd (start_terminal_interface
          (example_env parse_defaults [] no_profile ''n'' pip_fails)
          [''interpreter''] example_heap []))
     = [Profile (PStr ''default.yaml''), Check_for_update, Validate_llm_settings, Chat]
   \<and> fst (start_terminal_interface
          (example_env (parse_defaults(''reset_profile'' := PStr ''myprofile'')) [] no_profile ''n'' pip_fails)
          [''interpreter'', ''--reset_profile'', ''myprofile''] example_heap []) = Returned
   \<and> out (snd (start_terminal_interface
          (example_env (parse_defaults(''reset_profile'' := PStr ''myprofile'')) [] no_profile ''n'' pip_fails)
          [''interpreter'', ''--reset_profile'', ''myprofile''] example_heap []))
     = [Reset_profile (PStr ''myprofile'')]"
  by (simp add: start_terminal_interface_def deprecated_flags_def special_commands_def parse_defaults_eq
      configure_and_launch_def resolve_eq mode_expander_no_mode bind_out_quiet bind_heap_eq bound_option_eq
      safe_mode_disables_auto_run_def example_heap_def infer_model_defaults_def fill_defaults_apply Let_def
      update_check_def api_base_rewrite_def launch_def emit_def)

subsection \<open>C4\<close>

text \<open>
  Claim C4. The loop over \<^verbatim>\<open>pip\<close> and \<^verbatim>\<open>pip3\<close> (lines 446--458) is not in an \<^verbatim>\<open>else\<close> branch
  of the test of the answer (line 441). In the run below \<^verbatim>\<open>pywinctl\<close> is missing and the user
  answers \<^verbatim>\<open>n\<close>: the guidance is printed, then the installation command is run all the
  same, and the package is installed. The answer \<^verbatim>\<open>y\<close> runs the same command; the two runs
  differ in the guidance only.
\<close>

theorem declined_install_still_runs_pip:
  "out (os_packages
          (example_env (parse_defaults(''os'' := PBool True)) [] no_profile ''n'' pip_installs)
          \<lparr>heap = example_heap, args = parse_defaults(''os'' := PBool True), out = [],
           world = [''cv2'', ''plyer'', ''pyautogui'', ''pyperclip'']\<rparr>)
     = [Display_markdown_message
          ''> **Missing Package(s): `pywinctl`**\<newline>\<newline>These packages are required for OS Control.\<newline>\<newline>Install them?\<newline>'',
        Input ''(y/n) > '',
        Print ''\<newline>Please try to install them manually.\<newline>\<newline>'',
        Sleep 2,
        Print ''Attempting to start OS control anyway...\<newline>\<newline>'',
        Computer_run ''shell'' (''pip install '' @ [CHR 0x27] @ ''open-interpreter[os]'' @ [CHR 0x27]) (PBool True)]
   \<and> world (os_packages
          (example_env (parse_defaults(''os'' := PBool True)) [] no_profile ''n'' pip_installs)
          \<lparr>heap = example_heap, args = parse_defaults(''os'' := PBool True), out = [],
           world = [''cv2'', ''plyer'', ''pyautogui'', ''pyperclip'']\<rparr>) = packages
   \<and> out (os_packages
          (example_env (parse_defaults(''os'' := PBool True)) [] no_profile ''y'' pip_installs)
          \<lparr>heap = example_heap, args = parse_defaults(''os'' := PBool True), out = [],
           world = [''cv2'', ''plyer'', ''pyautogui'', ''pyperclip'']\<rparr>)
     = [Display_markdown_message
          ''> **Missing Package(s): `pywinctl`**\<newline>\<newline>These packages are required for OS Control.\<newline>\<newline>Install them?\<newline>'',
        Input ''(y/n) > '',
        Computer_run ''shell'' (''pip install '' @ [CHR 0x27] @ ''open-interpreter[os]'' @ [CHR 0x27]) (PBool True)]"
  by (simp add: os_packages_def missing_packages_def packages_def Let_def emit_def run_def
      install_manually_def lower_def lower_char_def)

subsection \<open>C5\<close>

text \<open>
  Claim C5, as stated, fails: argparse can end the process itself before it returns the
  unknown arguments. With \<^verbatim>\<open>--not-a-real-flag --help\<close> on the command line the help action
  exits with status 0; the function prints neither the unrecognized flag nor the
  documentation link, and the exit status is zero.
\<close>

theorem help_next_to_unknown_flag_exits_zero:
  "start_terminal_interface (exiting_env 0) [''interpreter'', ''--not-a-real-flag'', ''--help'']
     example_heap []
   = (Exited 0, \<lparr>heap = example_heap, args = parse_defaults, out = [], world = []\<rparr>)"
  by (simp add: start_terminal_interface_def deprecated_flags_def exiting_env_def)

text \<open>
  Claim C5, amended. When the parser returns and its list of unknown arguments is not
  empty, the function prints that list, the usage and the documentation link, and exits
  with status 1. The interpreter, its llm, the parsed options and the outside world are
  as they were: no binder pass and no mode expansion has run. The only output before the
  report is the notice of a deprecated flag, if there was one.
\<close>

theorem unknown_arguments_exit:
  assumes "parse_known_args e (fst (rewrite_deprecated deprecated_flags (argv, []))) = Parsed a unknown_args"
    and "unknown_args \<noteq> []"
  shows "start_terminal_interface e argv h w =
           (Exited 1,
            \<lparr>heap = h, args = a,
             out = snd (rewrite_deprecated deprecated_flags (argv, []))
                   @ [Print_unrecognized unknown_args, Print_usage, Print documentation_link],
             world = w\<rparr>)"
  using assms
  by (cases "rewrite_deprecated deprecated_flags (argv, [])")
     (simp add: start_terminal_interface_def unknown_arguments_report_def emit_def)

theorem unknown_arguments_exit_witness:
  "start_terminal_interface
     (example_env (parse_defaults(''verbose'' := PBool True)) [''--not-a-real-flag''] no_profile ''n'' pip_fails)
     [''interpreter'', ''--verbose'', ''--not-a-real-flag''] example_heap [] =
   (Exited 1,
    \<lparr>heap = example_heap, args = parse_defaults(''verbose'' := PBool True),
     out = [Print_unrecognized [''--not-a-real-flag''], Print_usage, Print documentation_link],
     world = []\<rparr>)"
  using unknown_arguments_exit
    [of "example_env (parse_defaults(''verbose'' := PBool True)) [''--not-a-real-flag''] no_profile ''n'' pip_fails"
        "[''interpreter'', ''--verbose'', ''--not-a-real-flag'']" "parse_defaults(''verbose'' := PBool True)"
        "[''--not-a-real-flag'']" example_heap "[]"]
  by (simp add: deprecated_flags_def)

subsection \<open>C6\<close>

text \<open>
  Claim C6. When the os flag is given, the state the mode expander hands to the first
  binder pass has vision support \<^verbatim>\<open>True\<close>, function calling \<^verbatim>\<open>False\<close>, context window
  110000, max tokens 4096, auto run \<^verbatim>\<open>True\<close>, forced task completion \<^verbatim>\<open>True\<close> and a system
  message that is not empty. Without the offline flag the message is the stripped
  literal, whose lines are the lines before the icon line, the icon line and the lines
  after it. With the offline flag it is the literal with the text of line 419 replaced by
  nothing, which is the same lines without the icon line; that line occurs once.
\<close>

theorem os_mode_settings:
  assumes "truthy (args s ''os'')"
  shows "heap (mode_expander e s) (Llm, ''supports_vision'') = PBool True
     \<and> heap (mode_expander e s) (Llm, ''supports_functions'') = PBool False
     \<and> heap (mode_expander e s) (Llm, ''context_window'') = PInt 110000
     \<and> heap (mode_expander e s) (Llm, ''max_tokens'') = PInt 4096
     \<and> heap (mode_expander e s) (Interpreter, ''auto_run'') = PBool True
     \<and> heap (mode_expander e s) (Interpreter, ''force_task_completion'') = PBool True
     \<and> (\<exists>message. heap (mode_expander e s) (Interpreter, ''system_message'') = PStr message
           \<and> message \<noteq> []
           \<and> (\<not> truthy (args s ''offline'') \<longrightarrow> message = os_system_message)
           \<and> (truthy (args s ''offline'') \<longrightarrow>
                message = replace icon_line [] os_system_message
                \<and> message = join ''\<newline>'' (os_message_before @ os_message_after)))
     \<and> os_system_message = join ''\<newline>'' (os_message_before @ [os_message_icon] @ os_message_after)
     \<and> icon_line = os_message_icon @ ''\<newline>''
     \<and> os_message_icon \<notin> set (os_message_before @ os_message_after)"
proof -
  have m: "join ''\<newline>'' (os_message_before @ os_message_after) \<noteq> []"
    using os_message_ends(4,5) by (intro join_not_Nil) simp_all
  have f: "heap (mode_expander e s) (Llm, ''supports_vision'') = PBool True"
    "heap (mode_expander e s) (Llm, ''supports_functions'') = PBool False"
    "heap (mode_expander e s) (Llm, ''context_window'') = PInt 110000"
    "heap (mode_expander e s) (Llm, ''max_tokens'') = PInt 4096"
    "heap (mode_expander e s) (Interpreter, ''auto_run'') = PBool True"
    "heap (mode_expander e s) (Interpreter, ''force_task_completion'') = PBool True"
    using assms by (simp_all add: mode_expander_heap_os os_settings_heap)
  have h: "heap (mode_expander e s) (Interpreter, ''system_message'')
          = PStr (if truthy (args s ''offline'')
                  then join ''\<newline>'' (os_message_before @ os_message_after)
                  else join ''\<newline>'' (os_message_before @ [os_message_icon] @ os_message_after))"
    using assms by (simp add: mode_expander_heap_os os_settings_heap)
  have n: "join ''\<newline>'' (os_message_before @ [os_message_icon] @ os_message_after) \<noteq> []"
    using os_system_message_not_empty unfolding os_system_message_eq .
  have g: "\<exists>message. heap (mode_expander e s) (Interpreter, ''system_message'') = PStr message
           \<and> message \<noteq> []
           \<and> (\<not> truthy (args s ''offline'') \<longrightarrow> message = os_system_message)
           \<and> (truthy (args s ''offline'') \<longrightarrow>
                message = replace icon_line [] os_system_message
                \<and> message = join ''\<newline>'' (os_message_before @ os_message_after))"
    unfolding os_system_message_offline
    unfolding os_system_message_eq
    using h m n by simp
  from f g os_system_message_eq icon_line_eq os_message_icon_once show ?thesis
    by (intro conjI)
qed

theorem os_mode_settings_witness:
  "truthy ((parse_defaults(''os'' := PBool True, ''offline'' := PBool True)) ''os'')
   \<and> truthy ((parse_defaults(''os'' := PBool True, ''offline'' := PBool True)) ''offline'')
   \<and> heap (mode_expander
        (example_env (parse_defaults(''os'' := PBool True, ''offline'' := PBool True)) [] no_profile ''n''
           pip_fails)
        \<lparr>heap = example_heap, args = parse_defaults(''os'' := PBool True, ''offline'' := PBool True),
         out = [], world = packages\<rparr>) (Llm, ''context_window'') = PInt 110000
   \<and> heap (mode_expander
        (example_env (parse_defaults(''os'' := PBool True, ''offline'' := PBool True)) [] no_profile ''n''
           pip_fails)
        \<lparr>heap = example_heap, args = parse_defaults(''os'' := PBool True, ''offline'' := PBool True),
         out = [], world = packages\<rparr>) (Interpreter, ''system_message'')
       = PStr (join ''\<newline>'' (os_message_before @ os_message_after))
   \<and> \<not> truthy ((parse_defaults(''os'' := PBool True)) ''offline'')
   \<and> heap (mode_expander
        (example_env (parse_defaults(''os'' := PBool True)) [] no_profile ''n'' pip_fails)
        \<lparr>heap = example_heap, args = parse_defaults(''os'' := PBool True), out = [],
         world = packages\<rparr>) (Interpreter, ''system_message'')
       = PStr os_system_message"
proof -
  let ?a = "parse_defaults(''os'' := PBool True, ''offline'' := PBool True)"
  let ?b = "parse_defaults(''os'' := PBool True)"
  let ?s = "\<lparr>heap = example_heap, args = ?a, out = [], world = packages\<rparr>"
  let ?t = "\<lparr>heap = example_heap, args = ?b, out = [], world = packages\<rparr>"
  let ?e = "example_env ?a [] no_profile ''n'' pip_fails"
  let ?f = "example_env ?b [] no_profile ''n'' pip_fails"
  have a: "truthy (args ?s ''os'')" "truthy (args ?s ''offline'')"
    and b: "truthy (args ?t ''os'')" "\<not> truthy (args ?t ''offline'')"
    by (simp_all add: parse_defaults_eq)
  from os_mode_settings [of ?s ?e, OF a(1)]
  have 1: "heap (mode_expander ?e ?s) (Llm, ''context_window'') = PInt 110000"
    and "\<exists>message. heap (mode_expander ?e ?s) (Interpreter, ''system_message'') = PStr message
           \<and> (truthy (args ?s ''offline'') \<longrightarrow>
                message = join ''\<newline>'' (os_message_before @ os_message_after))"
    by blast+
  with a(2) have 2: "heap (mode_expander ?e ?s) (Interpreter, ''system_message'')
       = PStr (join ''\<newline>'' (os_message_before @ os_message_after))"
    by auto
  from os_mode_settings [of ?t ?f, OF b(1)]
  have "\<exists>message. heap (mode_expander ?f ?t) (Interpreter, ''system_message'') = PStr message
           \<and> (\<not> truthy (args ?t ''offline'') \<longrightarrow> message = os_system_message)"
    by blast
  with b(2) have 3: "heap (mode_expander ?f ?t) (Interpreter, ''system_message'') = PStr os_system_message"
    by auto
  from a b 1 2 3 show ?thesis by simp
qed

subsection \<open>C7\<close>

text \<open>
  Claim C7. The model default inferencer (lines 544--574) writes a field only where it
  holds \<^verbatim>\<open>None\<close>: whenever the model name is a string it returns, and every attribute that
  was not \<^verbatim>\<open>None\<close> keeps its value. For the model name \<^verbatim>\<open>gpt-4\<close> an unset context window
  becomes 6500 and an unset max tokens 4096; for a name that starts with \<^verbatim>\<open>gpt-3.5-turbo\<close> an
  unset context window becomes 16000; for \<^verbatim>\<open>gpt-4-vision-preview\<close> an unset
  function-calling flag becomes \<^verbatim>\<open>False\<close>.
\<close>

theorem model_defaults_fill_only_unset:
  assumes "h (Llm, ''model'') = PStr model"
  shows "\<exists>h'. infer_model_defaults h = Inr h'
     \<and> (\<forall>field. h field \<noteq> PNone \<longrightarrow> h' field = h field)
     \<and> (model = ''gpt-4'' \<longrightarrow> h (Llm, ''context_window'') = PNone
          \<longrightarrow> h' (Llm, ''context_window'') = PInt 6500)
     \<and> (model = ''gpt-4'' \<longrightarrow> h (Llm, ''max_tokens'') = PNone
          \<longrightarrow> h' (Llm, ''max_tokens'') = PInt 4096)
     \<and> (startswith model ''gpt-3.5-turbo'' \<longrightarrow> h (Llm, ''context_window'') = PNone
          \<longrightarrow> h' (Llm, ''context_window'') = PInt 16000)
     \<and> (model = ''gpt-4-vision-preview'' \<longrightarrow> h (Llm, ''supports_functions'') = PNone
          \<longrightarrow> h' (Llm, ''supports_functions'') = PBool False)"
proof -
  obtain h' where h': "infer_model_defaults h = Inr h'"
    using assms by (simp add: infer_model_defaults_def Let_def)
  have keep: "\<forall>field. h field \<noteq> PNone \<longrightarrow> h' field = h field"
    using infer_model_defaults_keeps(1) [OF h'] by blast
  have g4: "model = ''gpt-4'' \<Longrightarrow> h (Llm, ''context_window'') = PNone
      \<Longrightarrow> h' (Llm, ''context_window'') = PInt 6500"
    and g4m: "model = ''gpt-4'' \<Longrightarrow> h (Llm, ''max_tokens'') = PNone
      \<Longrightarrow> h' (Llm, ''max_tokens'') = PInt 4096"
    and g4v: "model = ''gpt-4-vision-preview'' \<Longrightarrow> h (Llm, ''supports_functions'') = PNone
      \<Longrightarrow> h' (Llm, ''supports_functions'') = PBool False"
    using h' assms
    by (auto simp: infer_model_defaults_def Let_def fill_defaults_apply)
  have g35: "h' (Llm, ''context_window'') = PInt 16000"
    if "startswith model ''gpt-3.5-turbo''" "h (Llm, ''context_window'') = PNone"
  proof -
    from that(1) obtain r where r: "model = ''gpt-3.5-turbo'' @ r"
      by (auto simp: startswith_iff)
    have "startswith model ''gpt-3.5-turbo''" "\<not> startswith model ''gpt-4''"
      "\<not> startswith model ''openai/gpt-4''" "model \<noteq> ''gpt-4''" "model \<noteq> ''openai/gpt-4''"
      unfolding r by simp_all
    with h' assms that(2) show ?thesis
      by (auto simp: infer_model_defaults_def Let_def fill_defaults_apply)
  qed
  from h' keep g4 g4m g4v g35 show ?thesis by blast
qed

theorem model_defaults_fill_only_unset_witness:
  "(\<exists>h'. infer_model_defaults example_heap = Inr h'
      \<and> h' (Llm, ''model'') = PStr ''gpt-4''
      \<and> h' (Llm, ''context_window'') = PInt 6500
      \<and> h' (Llm, ''max_tokens'') = PInt 4096)
   \<and> (\<exists>h'. infer_model_defaults (example_heap((Llm, ''model'') := PStr ''gpt-3.5-turbo-xyz'')) = Inr h'
      \<and> h' (Llm, ''context_window'') = PInt 16000)
   \<and> (\<exists>h'. infer_model_defaults (example_heap((Llm, ''model'') := PStr ''gpt-4-vision-preview'',
                                                  (Llm, ''max_tokens'') := PInt 100)) = Inr h'
      \<and> h' (Llm, ''max_tokens'') = PInt 100
      \<and> h' (Llm, ''supports_functions'') = PBool False)"
proof -
  let ?h2 = "example_heap((Llm, ''model'') := PStr ''gpt-3.5-turbo-xyz'')"
  let ?h3 = "example_heap((Llm, ''model'') := PStr ''gpt-4-vision-preview'',
                          (Llm, ''max_tokens'') := PInt 100)"
  have m1: "example_heap (Llm, ''model'') = PStr ''gpt-4''"
    and n1: "example_heap (Llm, ''context_window'') = PNone" "example_heap (Llm, ''max_tokens'') = PNone"
    and m2: "?h2 (Llm, ''model'') = PStr ''gpt-3.5-turbo-xyz''"
    and n2: "?h2 (Llm, ''context_window'') = PNone"
    and p2: "startswith ''gpt-3.5-turbo-xyz'' ''gpt-3.5-turbo''"
    and m3: "?h3 (Llm, ''model'') = PStr ''gpt-4-vision-preview''"
    and n3: "?h3 (Llm, ''supports_functions'') = PNone" "?h3 (Llm, ''max_tokens'') = PInt 100"
    by (simp_all add: example_heap_def)
  have c1: "\<exists>h'. infer_model_defaults example_heap = Inr h'
      \<and> h' (Llm, ''model'') = PStr ''gpt-4''
      \<and> h' (Llm, ''context_window'') = PInt 6500
      \<and> h' (Llm, ''max_tokens'') = PInt 4096"
  proof -
    from model_defaults_fill_only_unset [of example_heap "''gpt-4''", OF m1]
    obtain h' where h: "infer_model_defaults example_heap = Inr h'"
      and keep: "\<forall>field. example_heap field \<noteq> PNone \<longrightarrow> h' field = example_heap field"
      and cw: "example_heap (Llm, ''context_window'') = PNone \<longrightarrow> h' (Llm, ''context_window'') = PInt 6500"
      and mt: "example_heap (Llm, ''max_tokens'') = PNone \<longrightarrow> h' (Llm, ''max_tokens'') = PInt 4096"
      by auto
    from keep m1 have "h' (Llm, ''model'') = PStr ''gpt-4''" by simp
    with h cw mt n1 show ?thesis by simp
  qed
  have c2: "\<exists>h'. infer_model_defaults ?h2 = Inr h' \<and> h' (Llm, ''context_window'') = PInt 16000"
  proof -
    from model_defaults_fill_only_unset [of ?h2 "''gpt-3.5-turbo-xyz''", OF m2]
    obtain h' where h: "infer_model_defaults ?h2 = Inr h'"
      and cw: "startswith ''gpt-3.5-turbo-xyz'' ''gpt-3.5-turbo'' \<longrightarrow> ?h2 (Llm, ''context_window'') = PNone
                 \<longrightarrow> h' (Llm, ''context_window'') = PInt 16000"
      by auto
    with p2 n2 show ?thesis by simp
  qed
  have c3: "\<exists>h'. infer_model_defaults ?h3 = Inr h'
      \<and> h' (Llm, ''max_tokens'') = PInt 100
      \<and> h' (Llm, ''supports_functions'') = PBool False"
  proof -
    from model_defaults_fill_only_unset [of ?h3 "''gpt-4-vision-preview''", OF m3]
    obtain h' where h: "infer_model_defaults ?h3 = Inr h'"
      and keep: "\<forall>field. ?h3 field \<noteq> PNone \<longrightarrow> h' field = ?h3 field"
      and sf: "?h3 (Llm, ''supports_functions'') = PNone \<longrightarrow> h' (Llm, ''supports_functions'') = PBool False"
      by auto
    from keep n3(2) have "h' (Llm, ''max_tokens'') = PInt 100" by simp
    with h sf n3 show ?thesis by simp
  qed
  from c1 c2 c3 show ?thesis by (intro conjI)
qed

subsection \<open>C8\<close>

text \<open>
  Claim C8. When \<^verbatim>\<open>interpreter.llm.api_base\<close> is truthy, lines 589--600 rewrite a model name
  that, in lower case, starts with none of \<^verbatim>\<open>openai/\<close>, \<^verbatim>\<open>azure/\<close>, \<^verbatim>\<open>ollama\<close>, \<^verbatim>\<open>jan\<close>,
  \<^verbatim>\<open>local\<close> to \<^verbatim>\<open>openai/\<close> followed by the name; a name that starts with \<^verbatim>\<open>jan/\<close> loses
  these four characters; any other name is left as it is. Nothing else changes, and the
  step does not raise: after the model default inferencer has returned, the model name
  is a string.
\<close>

theorem api_base_model_rewrite:
  assumes "truthy (h (Llm, ''api_base''))"
  shows "(\<forall>model. h (Llm, ''model'') = PStr model \<longrightarrow>
            api_base_rewrite h =
              Inr (h((Llm, ''model'') := PStr
                (if \<forall>p \<in> set [''openai/'', ''azure/'', ''ollama'', ''jan'', ''local''].
                      \<not> startswith (lower model) p
                 then ''openai/'' @ model
                 else if startswith (lower model) ''jan/'' then drop 4 model
                 else model))))
         \<and> (\<forall>h0. infer_model_defaults h0 = Inr h \<longrightarrow> (\<exists>h'. api_base_rewrite h = Inr h'))"
proof (intro conjI allI impI)
  fix model
  assume m: "h (Llm, ''model'') = PStr model"
  then have "h((Llm, ''model'') := PStr model) = h" by auto
  then show "api_base_rewrite h =
              Inr (h((Llm, ''model'') := PStr
                (if \<forall>p \<in> set [''openai/'', ''azure/'', ''ollama'', ''jan'', ''local''].
                      \<not> startswith (lower model) p
                 then ''openai/'' @ model
                 else if startswith (lower model) ''jan/'' then drop 4 model
                 else model)))"
    using assms m by (simp add: api_base_rewrite_def)
next
  fix h0
  assume i: "infer_model_defaults h0 = Inr h"
  then obtain model where "h0 (Llm, ''model'') = PStr model"
    using infer_model_defaults_string by blast
  with infer_model_defaults_keeps(1) [OF i, of "(Llm, ''model'')"]
  have "h (Llm, ''model'') = PStr model" by simp
  then show "\<exists>h'. api_base_rewrite h = Inr h'"
    using assms by (simp add: api_base_rewrite_def)
qed

theorem api_base_model_rewrite_witness:
  "api_base_rewrite (example_heap((Llm, ''api_base'') := PStr ''http://localhost:1234/v1'',
                                  (Llm, ''model'') := PStr ''llama2'')) =
     Inr (example_heap((Llm, ''api_base'') := PStr ''http://localhost:1234/v1'',
                       (Llm, ''model'') := PStr ''openai/llama2''))
   \<and> api_base_rewrite (example_heap((Llm, ''api_base'') := PStr ''http://localhost:1234/v1'',
                                    (Llm, ''model'') := PStr ''jan/llama2'')) =
     Inr (example_heap((Llm, ''api_base'') := PStr ''http://localhost:1234/v1'',
                       (Llm, ''model'') := PStr ''llama2''))
   \<and> api_base_rewrite (example_heap((Llm, ''api_base'') := PStr ''http://localhost:1234/v1'',
                                    (Llm, ''model'') := PStr ''Ollama/llama2'')) =
     Inr (example_heap((Llm, ''api_base'') := PStr ''http://localhost:1234/v1'',
                       (Llm, ''model'') := PStr ''Ollama/llama2''))"
proof -
  let ?h = "\<lambda>m. example_heap((Llm, ''api_base'') := PStr ''http://localhost:1234/v1'', (Llm, ''model'') := PStr m)"
  have t: "\<And>m. truthy (?h m (Llm, ''api_base''))" and m: "\<And>m. ?h m (Llm, ''model'') = PStr m"
    by simp_all
  have l: "lower ''llama2'' = ''llama2''" "lower ''jan/llama2'' = ''jan/llama2''"
    "lower ''Ollama/llama2'' = ''ollama/llama2''"
    by (simp_all add: lower_def lower_char_def)
  from api_base_model_rewrite [of "?h ''llama2''", OF t]
    api_base_model_rewrite [of "?h ''jan/llama2''", OF t]
    api_base_model_rewrite [of "?h ''Ollama/llama2''", OF t]
  show ?thesis by (simp add: l)
qed

subsection \<open>C9\<close>

text \<open>
  Claim C9. Mode expansion rewrites the profile selection before the profile is resolved,
  so a mode flag wins over \<^verbatim>\<open>--profile\<close>: whatever \<^verbatim>\<open>--profile\<close> names, the profile loader is
  called once, and
  \<^item> with \<^verbatim>\<open>fast.yaml\<close> when the fast flag is given and none of vision, os and local is;
  \<^item> with \<^verbatim>\<open>vision.yaml\<close> when the vision flag is given and neither os nor local is;
  \<^item> with \<^verbatim>\<open>os.py\<close> when the os flag is given and local is not;
  \<^item> with \<^verbatim>\<open>local.py\<close> when the local flag is given.
  In particular each of fast, vision and local, as the only mode flag, selects its profile
  against \<^verbatim>\<open>--profile custom.yaml\<close>.
\<close>

theorem mode_flags_select_profile:
  "(truthy (args s ''fast'') \<and> \<not> truthy (args s ''vision'') \<and> \<not> truthy (args s ''os'')
      \<and> \<not> truthy (args s ''local'')
      \<longrightarrow> profile_calls (out (snd (configure_and_launch e s))) = profile_calls (out s) @ [PStr ''fast.yaml''])
   \<and> (truthy (args s ''vision'') \<and> \<not> truthy (args s ''os'') \<and> \<not> truthy (args s ''local'')
      \<longrightarrow> profile_calls (out (snd (configure_and_launch e s))) = profile_calls (out s) @ [PStr ''vision.yaml''])
   \<and> (truthy (args s ''os'') \<and> \<not> truthy (args s ''local'')
      \<longrightarrow> profile_calls (out (snd (configure_and_launch e s))) = profile_calls (out s) @ [PStr ''os.py''])
   \<and> (truthy (args s ''local'')
      \<longrightarrow> profile_calls (out (snd (configure_and_launch e s))) = profile_calls (out s) @ [PStr ''local.py''])"
  by (simp add: configure_and_launch_profile_calls mode_expander_args_profile)

theorem mode_flags_select_profile_witness:
  "profile_calls (out (snd (configure_and_launch
      (example_env (parse_defaults(''profile'' := PStr ''custom.yaml'', ''fast'' := PBool True)) []
         no_profile ''n'' pip_fails)
      \<lparr>heap = example_heap,
       args = parse_defaults(''profile'' := PStr ''custom.yaml'', ''fast'' := PBool True),
       out = [], world = []\<rparr>))) = [PStr ''fast.yaml'']
   \<and> profile_calls (out (snd (configure_and_launch
      (example_env (parse_defaults(''profile'' := PStr ''custom.yaml'', ''vision'' := PBool True)) []
         no_profile ''n'' pip_fails)
      \<lparr>heap = example_heap,
       args = parse_defaults(''profile'' := PStr ''custom.yaml'', ''vision'' := PBool True),
       out = [], world = []\<rparr>))) = [PStr ''vision.yaml'']
   \<and> profile_calls (out (snd (configure_and_launch
      (example_env (parse_defaults(''profile'' := PStr ''custom.yaml'', ''os'' := PBool True)) []
         no_profile ''n'' pip_fails)
      \<lparr>heap = example_heap,
       args = parse_defaults(''profile'' := PStr ''custom.yaml'', ''os'' := PBool True),
       out = [], world = packages\<rparr>))) = [PStr ''os.py'']
   \<and> profile_calls (out (snd (configure_and_launch
      (example_env (parse_defaults(''profile'' := PStr ''custom.yaml'', ''local'' := PBool True)) []
         no_profile ''n'' pip_fails)
      \<lparr>heap = example_heap,
       args = parse_defaults(''profile'' := PStr ''custom.yaml'', ''local'' := PBool True),
       out = [], world = []\<rparr>))) = [PStr ''local.py'']"
proof -
  let ?f = "parse_defaults(''profile'' := PStr ''custom.yaml'', ''fast'' := PBool True)"
  let ?v = "parse_defaults(''profile'' := PStr ''custom.yaml'', ''vision'' := PBool True)"
  let ?o = "parse_defaults(''profile'' := PStr ''custom.yaml'', ''os'' := PBool True)"
  let ?l = "parse_defaults(''profile'' := PStr ''custom.yaml'', ''local'' := PBool True)"
  let ?s = "\<lambda>a. \<lparr>heap = example_heap, args = a, out = [], world = []\<rparr>"
  let ?t = "\<lparr>heap = example_heap, args = ?o, out = [], world = packages\<rparr>"
  let ?e = "\<lambda>a. example_env a [] no_profile ''n'' pip_fails"
  have f: "truthy (args (?s ?f) ''fast'') \<and> \<not> truthy (args (?s ?f) ''vision'')
             \<and> \<not> truthy (args (?s ?f) ''os'') \<and> \<not> truthy (args (?s ?f) ''local'')"
    and v: "truthy (args (?s ?v) ''vision'') \<and> \<not> truthy (args (?s ?v) ''os'')
             \<and> \<not> truthy (args (?s ?v) ''local'')"
    and o: "truthy (args ?t ''os'') \<and> \<not> truthy (args ?t ''local'')"
    and l: "truthy (args (?s ?l) ''local'')"
    by (simp_all add: parse_defaults_eq)
  from mode_flags_select_profile [of "?s ?f" "?e ?f"] f
  have 1: "profile_calls (out (snd (configure_and_launch (?e ?f) (?s ?f)))) = [PStr ''fast.yaml'']"
    by simp
  from mode_flags_select_profile [of "?s ?v" "?e ?v"] v
  have 2: "profile_calls (out (snd (configure_and_launch (?e ?v) (?s ?v)))) = [PStr ''vision.yaml'']"
    by simp
  from mode_flags_select_profile [of ?t "?e ?o"] o
  have 3: "profile_calls (out (snd (configure_and_launch (?e ?o) ?t))) = [PStr ''os.py'']"
    by simp
  from mode_flags_select_profile [of "?s ?l" "?e ?l"] l
  have 4: "profile_calls (out (snd (configure_and_launch (?e ?l) (?s ?l)))) = [PStr ''local.py'']"
    by simp
  from 1 2 3 4 show ?thesis by (intro conjI)
qed

subsection \<open>C10\<close>

text \<open>
  Claim C10. The function makes the check of lines 324--328 on the interpreter object as
  it comes in, before any value of the command line is bound.
  \<^item> When the object comes in with a truthy \<^verbatim>\<open>auto_run\<close> and safe mode \<^verbatim>\<open>ask\<close> or \<^verbatim>\<open>auto\<close>, and
    neither the command line (no \<^verbatim>\<open>--auto_run\<close>, no \<^verbatim>\<open>--os\<close>) nor the profile touches
    \<^verbatim>\<open>auto_run\<close>, then \<^verbatim>\<open>auto_run\<close> is \<^verbatim>\<open>False\<close> at the end of the function; when the
    object does not satisfy the condition, \<^verbatim>\<open>auto_run\<close> is at the end what it was.
  \<^item> The check does not read the parsed options: with \<^verbatim>\<open>--auto_run --safe_mode ask\<close> on the
    command line, whatever the object and the profile, both are active at the end of the
    function, and the profile loader is called on an object on which both are active,
    so the check was not made between the first binder pass and the profile either.
\<close>

theorem safe_mode_check_reads_object_not_arguments:
  "(truthy (heap s (Interpreter, ''auto_run''))
      \<and> (heap s (Interpreter, ''safe_mode'') = PStr ''ask'' \<or> heap s (Interpreter, ''safe_mode'') = PStr ''auto'')
      \<and> args s ''auto_run'' = PNone \<and> \<not> truthy (args s ''os'')
      \<and> (\<forall>h p. profile e h p (Interpreter, ''auto_run'') = h (Interpreter, ''auto_run''))
    \<longrightarrow> heap (snd (configure_and_launch e s)) (Interpreter, ''auto_run'') = PBool False)
   \<and> (\<not> (truthy (heap s (Interpreter, ''auto_run''))
           \<and> (heap s (Interpreter, ''safe_mode'') = PStr ''ask''
                \<or> heap s (Interpreter, ''safe_mode'') = PStr ''auto''))
      \<and> args s ''auto_run'' = PNone \<and> \<not> truthy (args s ''os'')
      \<and> (\<forall>h p. profile e h p (Interpreter, ''auto_run'') = h (Interpreter, ''auto_run''))
    \<longrightarrow> heap (snd (configure_and_launch e s)) (Interpreter, ''auto_run'') = heap s (Interpreter, ''auto_run''))
   \<and> (args s ''auto_run'' = PBool True \<and> args s ''safe_mode'' = PStr ''ask''
    \<longrightarrow> heap (snd (configure_and_launch e s)) (Interpreter, ''auto_run'') = PBool True
        \<and> heap (snd (configure_and_launch e s)) (Interpreter, ''safe_mode'') = PStr ''ask''
        \<and> (\<exists>object p.
              profile_calls (out (snd (configure_and_launch e s))) = profile_calls (out s) @ [p]
              \<and> object (Interpreter, ''auto_run'') = PBool True
              \<and> object (Interpreter, ''safe_mode'') = PStr ''ask''
              \<and> (\<forall>t. bound_option t = None \<and> t \<noteq> (Interpreter, ''in_terminal_interface'')
                     \<longrightarrow> heap (snd (configure_and_launch e s)) t = profile e object p t)))"
proof -
  let ?S = "mode_expander e (s\<lparr>heap := safe_mode_disables_auto_run (heap s)\<rparr>)"
  let ?p = "if truthy (args ?S ''profile'') then args ?S ''profile'' else PStr ''default.yaml''"
  have final: "heap (snd (configure_and_launch e s)) (Interpreter, ''auto_run'')
                 = heap (snd (resolve e ?S)) (Interpreter, ''auto_run'')"
    "heap (snd (configure_and_launch e s)) (Interpreter, ''safe_mode'')
                 = heap (snd (resolve e ?S)) (Interpreter, ''safe_mode'')"
    by (simp_all add: configure_and_launch_heap_other)
  have quiet: "heap (snd (configure_and_launch e s)) (Interpreter, ''auto_run'')
                 = safe_mode_disables_auto_run (heap s) (Interpreter, ''auto_run'')"
    if "args s ''auto_run'' = PNone" "\<not> truthy (args s ''os'')"
      "\<forall>h p. profile e h p (Interpreter, ''auto_run'') = h (Interpreter, ''auto_run'')"
  proof -
    have "args ?S ''auto_run'' = PNone" using that(1) by (simp add: mode_expander_args_other)
    moreover have "heap ?S = safe_mode_disables_auto_run (heap s)"
      using that(2) by (simp add: mode_expander_heap_no_os)
    ultimately show ?thesis
      using that(3) by (simp add: final resolve_heap bind_heap_eq bound_option_eq)
  qed
  have 1: "heap (snd (configure_and_launch e s)) (Interpreter, ''auto_run'') = PBool False"
    if "truthy (heap s (Interpreter, ''auto_run''))"
      "heap s (Interpreter, ''safe_mode'') = PStr ''ask'' \<or> heap s (Interpreter, ''safe_mode'') = PStr ''auto''"
      "args s ''auto_run'' = PNone" "\<not> truthy (args s ''os'')"
      "\<forall>h p. profile e h p (Interpreter, ''auto_run'') = h (Interpreter, ''auto_run'')"
    using quiet [OF that(3,4,5)] that(1,2) by (auto simp: safe_mode_disables_auto_run_def)
  have 2: "heap (snd (configure_and_launch e s)) (Interpreter, ''auto_run'') = heap s (Interpreter, ''auto_run'')"
    if "\<not> (truthy (heap s (Interpreter, ''auto_run''))
           \<and> (heap s (Interpreter, ''safe_mode'') = PStr ''ask''
                \<or> heap s (Interpreter, ''safe_mode'') = PStr ''auto''))"
      "args s ''auto_run'' = PNone" "\<not> truthy (args s ''os'')"
      "\<forall>h p. profile e h p (Interpreter, ''auto_run'') = h (Interpreter, ''auto_run'')"
    using quiet [OF that(2,3,4)] that(1) by (auto simp: safe_mode_disables_auto_run_def)
  have 3: "heap (snd (configure_and_launch e s)) (Interpreter, ''auto_run'') = PBool True
        \<and> heap (snd (configure_and_launch e s)) (Interpreter, ''safe_mode'') = PStr ''ask''
        \<and> (\<exists>object p.
              profile_calls (out (snd (configure_and_launch e s))) = profile_calls (out s) @ [p]
              \<and> object (Interpreter, ''auto_run'') = PBool True
              \<and> object (Interpreter, ''safe_mode'') = PStr ''ask''
              \<and> (\<forall>t. bound_option t = None \<and> t \<noteq> (Interpreter, ''in_terminal_interface'')
                     \<longrightarrow> heap (snd (configure_and_launch e s)) t = profile e object p t))"
    if a: "args s ''auto_run'' = PBool True" "args s ''safe_mode'' = PStr ''ask''"
  proof -
    have b: "args ?S ''auto_run'' = PBool True" "args ?S ''safe_mode'' = PStr ''ask''"
      using a by (simp_all add: mode_expander_args_other)
    then have r: "heap (snd (configure_and_launch e s)) (Interpreter, ''auto_run'') = PBool True"
      "heap (snd (configure_and_launch e s)) (Interpreter, ''safe_mode'') = PStr ''ask''"
      by (simp_all add: final resolve_heap bound_option_eq)
    have o: "heap (bind ?S) (Interpreter, ''auto_run'') = PBool True"
      "heap (bind ?S) (Interpreter, ''safe_mode'') = PStr ''ask''"
      using b by (simp_all add: bind_heap_eq bound_option_eq)
    have c: "profile_calls (out (snd (configure_and_launch e s))) = profile_calls (out s) @ [?p]"
      by (simp add: configure_and_launch_profile_calls)
    have u: "\<forall>t. bound_option t = None \<and> t \<noteq> (Interpreter, ''in_terminal_interface'')
                     \<longrightarrow> heap (snd (configure_and_launch e s)) t = profile e (heap (bind ?S)) ?p t"
      using configure_and_launch_unbound [of _ e s] by blast
    from r o c u show ?thesis by blast
  qed
  from 1 2 3 show ?thesis by blast
qed

theorem safe_mode_check_reads_object_not_arguments_witness:
  "heap (snd (configure_and_launch
        (example_env parse_defaults [] no_profile ''n'' pip_fails)
        \<lparr>heap = example_heap((Interpreter, ''auto_run'') := PBool True,
                              (Interpreter, ''safe_mode'') := PStr ''auto''),
         args = parse_defaults, out = [], world = []\<rparr>)) (Interpreter, ''auto_run'') = PBool False
   \<and> heap (snd (configure_and_launch
        (example_env parse_defaults [] no_profile ''n'' pip_fails)
        \<lparr>heap = example_heap((Interpreter, ''auto_run'') := PBool True),
         args = parse_defaults, out = [], world = []\<rparr>)) (Interpreter, ''auto_run'') = PBool True
   \<and> heap (snd (configure_and_launch
        (example_env (parse_defaults(''auto_run'' := PBool True, ''safe_mode'' := PStr ''ask'')) []
           no_profile ''n'' pip_fails)
        \<lparr>heap = example_heap,
         args = parse_defaults(''auto_run'' := PBool True, ''safe_mode'' := PStr ''ask''),
         out = [], world = []\<rparr>)) (Interpreter, ''auto_run'') = PBool True
   \<and> heap (snd (configure_and_launch
        (example_env (parse_defaults(''auto_run'' := PBool True, ''safe_mode'' := PStr ''ask'')) []
           no_profile ''n'' pip_fails)
        \<lparr>heap = example_heap,
         args = parse_defaults(''auto_run'' := PBool True, ''safe_mode'' := PStr ''ask''),
         out = [], world = []\<rparr>)) (Interpreter, ''safe_mode'') = PStr ''ask''"
proof -
  let ?e = "example_env parse_defaults [] no_profile ''n'' pip_fails"
  let ?s1 = "\<lparr>heap = example_heap((Interpreter, ''auto_run'') := PBool True,
                                   (Interpreter, ''safe_mode'') := PStr ''auto''),
              args = parse_defaults, out = [], world = []\<rparr>"
  let ?s2 = "\<lparr>heap = example_heap((Interpreter, ''auto_run'') := PBool True),
              args = parse_defaults, out = [], world = []\<rparr>"
  let ?a = "parse_defaults(''auto_run'' := PBool True, ''safe_mode'' := PStr ''ask'')"
  let ?f = "example_env ?a [] no_profile ''n'' pip_fails"
  let ?s3 = "\<lparr>heap = example_heap, args = ?a, out = [], world = []\<rparr>"
  have k: "\<forall>h p. profile ?e h p (Interpreter, ''auto_run'') = h (Interpreter, ''auto_run'')"
    by simp
  have h1: "truthy (heap ?s1 (Interpreter, ''auto_run''))"
    "heap ?s1 (Interpreter, ''safe_mode'') = PStr ''ask'' \<or> heap ?s1 (Interpreter, ''safe_mode'') = PStr ''auto''"
    "args ?s1 ''auto_run'' = PNone" "\<not> truthy (args ?s1 ''os'')"
    by (simp_all add: parse_defaults_eq)
  have h2: "\<not> (truthy (heap ?s2 (Interpreter, ''auto_run''))
           \<and> (heap ?s2 (Interpreter, ''safe_mode'') = PStr ''ask''
                \<or> heap ?s2 (Interpreter, ''safe_mode'') = PStr ''auto''))"
    "args ?s2 ''auto_run'' = PNone" "\<not> truthy (args ?s2 ''os'')"
    "heap ?s2 (Interpreter, ''auto_run'') = PBool True"
    by (simp_all add: parse_defaults_eq example_heap_def)
  have h3: "args ?s3 ''auto_run'' = PBool True" "args ?s3 ''safe_mode'' = PStr ''ask''"
    by simp_all
  from safe_mode_check_reads_object_not_arguments [of ?s1 ?e] h1 k
  have 1: "heap (snd (configure_and_launch ?e ?s1)) (Interpreter, ''auto_run'') = PBool False"
    by blast
  from safe_mode_check_reads_object_not_arguments [of ?s2 ?e] h2(1,2,3) k
  have "heap (snd (configure_and_launch ?e ?s2)) (Interpreter, ''auto_run'')
          = heap ?s2 (Interpreter, ''auto_run'')"
    by blast
  with h2(4) have 2: "heap (snd (configure_and_launch ?e ?s2)) (Interpreter, ''auto_run'') = PBool True"
    by simp
  from safe_mode_check_reads_object_not_arguments [of ?s3 ?f] h3
  have 3: "heap (snd (configure_and_launch ?f ?s3)) (Interpreter, ''auto_run'') = PBool True"
    "heap (snd (configure_and_launch ?f ?s3)) (Interpreter, ''safe_mode'') = PStr ''ask''"
    by blast+
  from 1 2 3 show ?thesis by (intro conjI)
qed

end
